theory Spec2Isabelle
  imports Complex_Main "HOL-Library.Sublist" "HOL-Library.Word"
begin

section \<open>Python values shared by the components\<close>

text \<open>
  Strings are byte strings (\<open>char list\<close>); the case conversion below is Python's
  \<open>str.lower\<close> on ASCII text and leaves every other byte as it is.  An exception
  is a value of \<open>error\<close>: the attribute error Python raises for a missing method, or any
  other \<open>Exception\<close> with its message.  A call of an external library has an outcome
  \<open>error + 'a\<close>, with \<open>Inl\<close> for the exception.
\<close>

datatype error = AttributeError | Error string

type_synonym bytes = "8 word list"

definition char_lower :: "char \<Rightarrow> char" where
  "char_lower c =
     (let n = (of_char c :: nat) in if 65 \<le> n \<and> n \<le> 90 then char_of (n + 32) else c)"

definition lower :: "string \<Rightarrow> string" where
  "lower s = map char_lower s"

text \<open>Python's \<open>p in t\<close> on strings: \<open>p\<close> occurs in \<open>t\<close> as a contiguous block.\<close>

fun str_in :: "string \<Rightarrow> string \<Rightarrow> bool" where
  "str_in p [] = (p = [])"
| "str_in p (c # cs) = (prefix p (c # cs) \<or> str_in p cs)"

definition endswith :: "string \<Rightarrow> string \<Rightarrow> bool" where
  "endswith s suf = suffix suf s"

section \<open>conversation\_memory.py: ConversationMemory\<close>

text \<open>
  The SQLite table \<open>messages\<close> is the list of its rows in rowid (insertion) order.  A
  timestamp is the reading of \<open>datetime.now()\<close>, an integer number of microseconds; the
  reading is an input of \<open>add\<close>.  Every statement against the database sits in a
  \<open>try\<close>; the flag \<open>ok\<close> of an operation says that its SQLite calls did not raise.
  A chat message is the pair \<open>(role, content)\<close> of the dictionary
  \<open>{"role": .., "content": ..}\<close>.
\<close>

type_synonym message = "string \<times> string"

record row =
  role :: string
  content :: string
  timestamp :: int
  metadata :: "string option"

record ConversationMemory =
  rows :: "row list"
  max_messages :: int

text \<open>\<open>add\<close> (lines 74-90): one INSERT; on an exception the message is printed and
  the table stays as it was.  \<open>md\<close> is \<open>json.dumps(metadata)\<close>, or \<open>None\<close>.\<close>

definition add ::
  "bool \<Rightarrow> int \<Rightarrow> ConversationMemory \<Rightarrow> string \<Rightarrow> string \<Rightarrow> string option \<Rightarrow> ConversationMemory" where
  "add ok now m r c md =
     (if ok
      then m\<lparr>rows := rows m @ [\<lparr>role = r, content = c, timestamp = now, metadata = md\<rparr>]\<rparr>
      else m)"

text \<open>\<open>add_exchange\<close> (lines 92-95): two calls of \<open>add\<close>, each with its own clock
  reading and its own outcome.\<close>

definition add_exchange ::
  "bool \<times> int \<Rightarrow> bool \<times> int \<Rightarrow> ConversationMemory \<Rightarrow> string \<Rightarrow> string \<Rightarrow> ConversationMemory" where
  "add_exchange w1 w2 m user_msg assistant_msg =
     add (fst w2) (snd w2) (add (fst w1) (snd w1) m ''user'' user_msg None)
       ''assistant'' assistant_msg None"

text \<open>
  \<open>get_recent\<close> (lines 97-127).  \<open>limit = n if n else self.max_messages\<close>: a missing or
  zero \<open>n\<close> takes the default.  The inner query orders by timestamp descending and keeps
  \<open>limit\<close> rows (a negative LIMIT keeps all of them, as in SQLite); the outer query
  orders what is left by timestamp ascending.  SQL does not fix the order of rows with equal
  timestamps; here the sorts are stable and the descending scan visits equal timestamps
  newest row first.  \<open>get_recent_rows\<close> is the result set of the query.
\<close>

definition effective_limit :: "ConversationMemory \<Rightarrow> int option \<Rightarrow> int" where
  "effective_limit m n =
     (case n of None \<Rightarrow> max_messages m | Some k \<Rightarrow> if k = 0 then max_messages m else k)"

definition get_recent_rows :: "ConversationMemory \<Rightarrow> int option \<Rightarrow> row list" where
  "get_recent_rows m n =
     (let limit = effective_limit m n;
          newest_first = rev (sort_key timestamp (rows m));
          selected = (if limit < 0 then newest_first else take (nat limit) newest_first)
      in sort_key timestamp selected)"

text \<open>
  The limit is bound as an SQLite INTEGER: outside the signed 64-bit range the binding
  raises OverflowError.  That, like any SQLite error (\<open>ok\<close> false), happens inside the
  \<open>try\<close>, and \<open>get_recent\<close> then returns the empty list.
\<close>

definition fits_int64 :: "int \<Rightarrow> bool" where
  "fits_int64 k = (- (2 ^ 63) \<le> k \<and> k < 2 ^ 63)"

definition get_recent :: "bool \<Rightarrow> ConversationMemory \<Rightarrow> int option \<Rightarrow> message list" where
  "get_recent ok m n =
     (if ok \<and> fits_int64 (effective_limit m n)
      then map (\<lambda>r. (role r, content r)) (get_recent_rows m n)
      else [])"

definition clear :: "bool \<Rightarrow> ConversationMemory \<Rightarrow> ConversationMemory" where
  "clear ok m = (if ok then m\<lparr>rows := []\<rparr> else m)"

section \<open>personality.py and llm\_router.py: LLMRouter\<close>

definition SYSTEM_PROMPT :: string where
  \<open>SYSTEM_PROMPT =
    ''You are Buddy, a friendly and helpful voice assistant.\<newline>\<newline>'' @
    ''Your personality:\<newline>'' @
    ''- Warm and conversational, like chatting with a good friend\<newline>'' @
    ''- Enthusiastic but not over-the-top\<newline>'' @
    ''- Patient and understanding\<newline>'' @
    ''- Occasionally uses casual language and light humor\<newline>'' @
    ''- Honest and helpful\<newline>\<newline>'' @
    ''Important guidelines:\<newline>'' @
    ''- Keep responses CONCISE (1-3 sentences max) since you're speaking out loud\<newline>'' @
    ''- Avoid bullet points, lists, or formatting that doesn't work well when spoken\<newline>'' @
    ''- If you don't know something, admit it cheerfully and suggest alternatives\<newline>'' @
    ''- Be natural - use contractions, casual phrases like "sure thing!" or "good question!"\<newline>'' @
    ''- Respond directly to what was asked without unnecessary preamble\<newline>\<newline>'' @
    ''Remember: You're having a voice conversation, not writing an essay. Be brief and natural!''\<close>

text \<open>
  The world outside the router, as far as one call of \<open>chat\<close> sees it: the API keys of
  config.py (read from the process environment), the outcome of each client constructor,
  of \<open>ollama.list()\<close> (the model names \<open>get_name\<close> extracts, \<open>None\<close> where it
  finds none), of the LM Studio model listing and of each backend's completion call (the
  content of the reply, which may be \<open>None\<close>), the outcome of the history query and the
  outcome and clock reading of the two inserts of \<open>add_exchange\<close>.
\<close>

record llm_env =
  GROQ_API_KEY :: string
  NVIDIA_API_KEY :: string
  OPENROUTER_API_KEY :: string
  GEMINI_API_KEY :: string
  groq_init :: "error + unit"
  nvidia_init :: "error + unit"
  openrouter_init :: "error + unit"
  gemini_init :: "error + unit"
  ollama_list :: "error + string option list"
  lmstudio_init :: "error + unit"
  lmstudio_models :: "error + string list"
  ollama_chat :: "string \<Rightarrow> message list \<Rightarrow> error + string option"
  lmstudio_chat :: "message list \<Rightarrow> error + string option"
  groq_chat :: "message list \<Rightarrow> error + string option"
  nvidia_chat :: "message list \<Rightarrow> error + string option"
  openrouter_chat :: "message list \<Rightarrow> error + string option"
  gemini_generate :: "string \<Rightarrow> error + string option"
  db_read_ok :: bool
  db_write_user :: "bool \<times> int"
  db_write_assistant :: "bool \<times> int"

text \<open>The fields of \<open>LLMRouter\<close>; a client field says whether the client object is set.\<close>

record LLMRouter =
  prefer_local :: bool
  max_history :: int
  memory :: ConversationMemory
  ollama_available :: "bool option"
  ollama_model_name :: string
  gemini_client :: bool
  groq_client :: bool
  openrouter_client :: bool
  nvidia_client :: bool
  lmstudio_client :: bool
  lmstudio_available :: "bool option"

text \<open>\<open>_check_ollama\<close> (lines 41-91).\<close>

fun truthy_names :: "string option list \<Rightarrow> string list" where
  "truthy_names [] = []"
| "truthy_names (None # ns) = truthy_names ns"
| "truthy_names (Some n # ns) = (if n \<noteq> [] then n # truthy_names ns else truthy_names ns)"

definition fallbacks :: "string list" where
  "fallbacks = [''phi3'', ''mistral'', ''llama3'', ''gemma'', ''qwen'', ''tinyllama'']"

fun first_fallback :: "string list \<Rightarrow> string list \<Rightarrow> string option" where
  "first_fallback [] available_models = None"
| "first_fallback (fallback # fs) available_models =
     (case find (str_in fallback) available_models of
        Some match \<Rightarrow> if match \<noteq> [] then Some match else first_fallback fs available_models
      | None \<Rightarrow> first_fallback fs available_models)"

definition check_ollama :: "llm_env \<Rightarrow> LLMRouter \<Rightarrow> bool \<times> LLMRouter" where
  "check_ollama env s =
     (case ollama_available s of
        Some b \<Rightarrow> (b, s)
      | None \<Rightarrow>
          (case ollama_list env of
             Inl e \<Rightarrow> (False, s\<lparr>ollama_available := Some False\<rparr>)
           | Inr response \<Rightarrow>
               (let available_models = truthy_names response in
                case find (str_in (ollama_model_name s)) available_models of
                  Some match \<Rightarrow>
                    (True, s\<lparr>ollama_model_name := match, ollama_available := Some True\<rparr>)
                | None \<Rightarrow>
                    (case first_fallback fallbacks available_models of
                       Some match \<Rightarrow>
                         (True, s\<lparr>ollama_model_name := match, ollama_available := Some True\<rparr>)
                     | None \<Rightarrow>
                         (case available_models of
                            first # rest \<Rightarrow>
                              (True, s\<lparr>ollama_model_name := first, ollama_available := Some True\<rparr>)
                          | [] \<Rightarrow> (False, s\<lparr>ollama_available := Some False\<rparr>))))))"

text \<open>\<open>_check_lmstudio\<close> (lines 93-116): the client is stored before the listing is
  tried, so a failed listing leaves the client set.\<close>

definition check_lmstudio :: "llm_env \<Rightarrow> LLMRouter \<Rightarrow> bool \<times> LLMRouter" where
  "check_lmstudio env s =
     (case lmstudio_available s of
        Some b \<Rightarrow> (b, s)
      | None \<Rightarrow>
          (case lmstudio_init env of
             Inl e \<Rightarrow> (False, s\<lparr>lmstudio_available := Some False\<rparr>)
           | Inr u \<Rightarrow>
               (let s1 = s\<lparr>lmstudio_client := True\<rparr> in
                case lmstudio_models env of
                  Inl e \<Rightarrow> (False, s1\<lparr>lmstudio_available := Some False\<rparr>)
                | Inr models \<Rightarrow>
                    if models \<noteq> [] then (True, s1\<lparr>lmstudio_available := Some True\<rparr>)
                    else (False, s1\<lparr>lmstudio_available := Some False\<rparr>))))"

text \<open>\<open>_configure_online\<close> (lines 118-144): a client is built when it is not set and
  its key is not empty; a constructor that raises leaves it unset.\<close>

definition configure_online :: "llm_env \<Rightarrow> LLMRouter \<Rightarrow> LLMRouter" where
  "configure_online env s =
     (let s1 = (if \<not> groq_client s \<and> GROQ_API_KEY env \<noteq> []
                then (case groq_init env of Inl e \<Rightarrow> s | Inr u \<Rightarrow> s\<lparr>groq_client := True\<rparr>)
                else s);
          s2 = (if \<not> nvidia_client s1 \<and> NVIDIA_API_KEY env \<noteq> []
                then (case nvidia_init env of Inl e \<Rightarrow> s1 | Inr u \<Rightarrow> s1\<lparr>nvidia_client := True\<rparr>)
                else s1);
          s3 = (if \<not> openrouter_client s2 \<and> OPENROUTER_API_KEY env \<noteq> []
                then (case openrouter_init env of
                        Inl e \<Rightarrow> s2 | Inr u \<Rightarrow> s2\<lparr>openrouter_client := True\<rparr>)
                else s2)
      in if \<not> gemini_client s3 \<and> GEMINI_API_KEY env \<noteq> []
         then (case gemini_init env of Inl e \<Rightarrow> s3 | Inr u \<Rightarrow> s3\<lparr>gemini_client := True\<rparr>)
         else s3)"

text \<open>\<open>_build_messages\<close> (lines 146-154).\<close>

definition build_messages :: "llm_env \<Rightarrow> LLMRouter \<Rightarrow> string \<Rightarrow> message list" where
  "build_messages env s user_message =
     [(''system'', SYSTEM_PROMPT)]
     @ get_recent (db_read_ok env) (memory s) (Some (max_history s))
     @ [(''user'', user_message)]"

text \<open>The backend steps (lines 193-274).  Each returns the reply's content, or
  \<open>None\<close> when its client is not set or anything in its \<open>try\<close> raised.\<close>

definition chat_lmstudio :: "llm_env \<Rightarrow> LLMRouter \<Rightarrow> string \<Rightarrow> string option \<times> LLMRouter" where
  "chat_lmstudio env s user_message =
     (if \<not> lmstudio_client s then (None, s)
      else case lmstudio_chat env (build_messages env s user_message) of
             Inl e \<Rightarrow> (None, s\<lparr>lmstudio_available := Some False\<rparr>)
           | Inr r \<Rightarrow> (r, s))"

definition chat_ollama :: "llm_env \<Rightarrow> LLMRouter \<Rightarrow> string \<Rightarrow> string option \<times> LLMRouter" where
  "chat_ollama env s user_message =
     (case ollama_chat env (ollama_model_name s) (build_messages env s user_message) of
        Inl e \<Rightarrow> (None, s\<lparr>ollama_available := Some False\<rparr>)
      | Inr r \<Rightarrow> (r, s))"

definition chat_groq :: "llm_env \<Rightarrow> LLMRouter \<Rightarrow> string \<Rightarrow> string option" where
  "chat_groq env s user_message =
     (if \<not> groq_client s then None
      else case groq_chat env (build_messages env s user_message) of
             Inl e \<Rightarrow> None | Inr r \<Rightarrow> r)"

definition chat_nvidia :: "llm_env \<Rightarrow> LLMRouter \<Rightarrow> string \<Rightarrow> string option" where
  "chat_nvidia env s user_message =
     (if \<not> nvidia_client s then None
      else case nvidia_chat env (build_messages env s user_message) of
             Inl e \<Rightarrow> None | Inr r \<Rightarrow> r)"

definition chat_openrouter :: "llm_env \<Rightarrow> LLMRouter \<Rightarrow> string \<Rightarrow> string option" where
  "chat_openrouter env s user_message =
     (if \<not> openrouter_client s then None
      else case openrouter_chat env (build_messages env s user_message) of
             Inl e \<Rightarrow> None | Inr r \<Rightarrow> r)"

text \<open>
  \<open>_chat_gemini\<close> (lines 261-274) asks the memory for \<open>get_summary_context()\<close>.  The
  class ConversationMemory (conversation\_memory.py, lines 12-147) defines \<open>__init__\<close>,
  \<open>_get_connection\<close>, \<open>_init_db\<close>, \<open>add\<close>, \<open>add_exchange\<close>, \<open>get_recent\<close>,
  \<open>clear\<close> and \<open>__len__\<close> and has no base class, so the attribute lookup raises
  AttributeError.
\<close>

definition get_summary_context :: "ConversationMemory \<Rightarrow> error + string" where
  "get_summary_context m = Inl AttributeError"

definition gemini_prompt :: "string \<Rightarrow> string \<Rightarrow> string" where
  "gemini_prompt history_text user_message =
     SYSTEM_PROMPT @ ''\<newline>\<newline>Previous conversation:\<newline>'' @ history_text
     @ ''\<newline>\<newline>User: '' @ user_message @ ''\<newline>Assistant:''"

definition chat_gemini :: "llm_env \<Rightarrow> LLMRouter \<Rightarrow> string \<Rightarrow> string option" where
  "chat_gemini env s user_message =
     (if \<not> gemini_client s then None
      else case (case get_summary_context (memory s) of
                   Inl e \<Rightarrow> Inl e
                 | Inr history_text \<Rightarrow>
                     gemini_generate env (gemini_prompt history_text user_message)) of
             Inl e \<Rightarrow> None
           | Inr r \<Rightarrow> r)"

text \<open>
  \<open>chat\<close> (lines 156-191).  \<open>chain_response\<close> is the value of \<open>response\<close> when line 186
  is reached, with the router as the availability checks and the failed local backends
  have left it; \<open>chat\<close> is the whole method.
\<close>

definition apology :: string where
  "apology = ''All my brain connections are down. Please check your internet and API keys.''"

definition chain_response :: "llm_env \<Rightarrow> LLMRouter \<Rightarrow> string \<Rightarrow> string option \<times> LLMRouter" where
  "chain_response env s0 user_message =
     (let s1 = configure_online env s0;
          (response1, s2) =
            (if prefer_local s1
             then (let (ok, s') = check_ollama env s1
                   in if ok then chat_ollama env s' user_message else (None, s'))
             else (None, s1));
          (response2, s3) =
            (if response1 = None \<and> prefer_local s2
             then (let (ok, s') = check_lmstudio env s2
                   in if ok then chat_lmstudio env s' user_message else (response1, s'))
             else (response1, s2));
          response3 = (if response2 = None then chat_groq env s3 user_message else response2);
          response4 = (if response3 = None then chat_nvidia env s3 user_message else response3);
          response5 = (if response4 = None then chat_openrouter env s3 user_message else response4);
          response6 = (if response5 = None then chat_gemini env s3 user_message else response5)
      in (response6, s3))"

definition chat :: "llm_env \<Rightarrow> LLMRouter \<Rightarrow> string \<Rightarrow> string \<times> LLMRouter" where
  "chat env s user_message =
     (case chain_response env s user_message of
        (None, s') \<Rightarrow> (apology, s')
      | (Some response, s') \<Rightarrow>
          (response,
           s'\<lparr>memory := add_exchange (db_write_user env) (db_write_assistant env)
                           (memory s') user_message response\<rparr>))"

text \<open>Two environments used as examples below: one in which nothing is configured or
  reachable, and one in which only Groq is configured and replies with the empty string.\<close>

definition raises :: "'a \<Rightarrow> error + 'b" where
  "raises x = Inl (Error ''unreachable'')"

definition raises2 :: "'a \<Rightarrow> 'b \<Rightarrow> error + 'c" where
  "raises2 x y = Inl (Error ''unreachable'')"

definition replies_empty :: "message list \<Rightarrow> error + string option" where
  "replies_empty messages = Inr (Some [])"

definition replies_hello :: "message list \<Rightarrow> error + string option" where
  "replies_hello messages = Inr (Some ''Hello!'')"

definition replies_hello_text :: "string \<Rightarrow> error + string option" where
  "replies_hello_text prompt = Inr (Some ''Hello!'')"

definition offline_env :: llm_env where
  "offline_env =
     \<lparr>GROQ_API_KEY = [], NVIDIA_API_KEY = [], OPENROUTER_API_KEY = [], GEMINI_API_KEY = [],
      groq_init = Inr (), nvidia_init = Inr (), openrouter_init = Inr (), gemini_init = Inr (),
      ollama_list = Inl (Error ''unreachable''),
      lmstudio_init = Inr (), lmstudio_models = Inl (Error ''unreachable''),
      ollama_chat = raises2, lmstudio_chat = raises, groq_chat = raises, nvidia_chat = raises,
      openrouter_chat = raises, gemini_generate = raises,
      db_read_ok = True, db_write_user = (True, 100), db_write_assistant = (True, 101)\<rparr>"

definition fresh_router :: LLMRouter where
  "fresh_router =
     \<lparr>prefer_local = True, max_history = 10,
      memory = \<lparr>rows = [], max_messages = 20\<rparr>,
      ollama_available = None, ollama_model_name = ''llama3.2'',
      gemini_client = False, groq_client = False, openrouter_client = False,
      nvidia_client = False, lmstudio_client = False, lmstudio_available = None\<rparr>"

definition hello_env :: llm_env where
  "hello_env = offline_env\<lparr>GROQ_API_KEY := ''key'', groq_chat := replies_hello\<rparr>"

definition empty_then_hello_env :: llm_env where
  "empty_then_hello_env =
     offline_env\<lparr>GROQ_API_KEY := ''key'', groq_chat := replies_empty,
                 NVIDIA_API_KEY := ''key'', nvidia_chat := replies_hello\<rparr>"

definition groq_empty_env :: llm_env where
  "groq_empty_env = offline_env\<lparr>GROQ_API_KEY := ''key'', groq_chat := replies_empty\<rparr>"

text \<open>
  The chain as the specification words it: the replies of the six backends, each step
  taken on its own from the router as \<open>_configure_online\<close> leaves it, in the order of
  the chain (Ollama, LM Studio, Groq, Nvidia, OpenRouter, Gemini; the two local ones only
  with \<open>prefer_local\<close> and a successful availability check), and the first of them
  that is not \<open>None\<close>.
\<close>

definition try_ollama :: "llm_env \<Rightarrow> LLMRouter \<Rightarrow> string \<Rightarrow> string option" where
  "try_ollama env s user_message =
     (if prefer_local s \<and> fst (check_ollama env s)
      then fst (chat_ollama env (snd (check_ollama env s)) user_message)
      else None)"

definition try_lmstudio :: "llm_env \<Rightarrow> LLMRouter \<Rightarrow> string \<Rightarrow> string option" where
  "try_lmstudio env s user_message =
     (if prefer_local s \<and> fst (check_lmstudio env s)
      then fst (chat_lmstudio env (snd (check_lmstudio env s)) user_message)
      else None)"

definition chain_replies :: "llm_env \<Rightarrow> LLMRouter \<Rightarrow> string \<Rightarrow> string option list" where
  "chain_replies env s user_message =
     (let s1 = configure_online env s
      in [try_ollama env s1 user_message, try_lmstudio env s1 user_message,
          chat_groq env s1 user_message, chat_nvidia env s1 user_message,
          chat_openrouter env s1 user_message, chat_gemini env s1 user_message])"

fun first_reply :: "string option list \<Rightarrow> string option" where
  "first_reply [] = None"
| "first_reply (None # replies) = first_reply replies"
| "first_reply (Some r # replies) = Some r"

subsection \<open>The same methods with exceptions passed on\<close>

text \<open>
  Here a method's result is \<open>error + 'a\<close>: \<open>Inl\<close> is an exception leaving the method.
  \<open>then_do\<close> runs a second step after a first and passes an exception of the first on;
  \<open>try_except\<close> is a \<open>try\<close> block with its \<open>except Exception\<close> handler.  Every
  method below is written with these two as the source has its \<open>try\<close> blocks, so an
  exception that no block catches does leave the method.
\<close>

definition then_do :: "error + 'a \<Rightarrow> ('a \<Rightarrow> error + 'b) \<Rightarrow> error + 'b" where
  "then_do first rest = (case first of Inl e \<Rightarrow> Inl e | Inr x \<Rightarrow> rest x)"

definition try_except :: "error + 'a \<Rightarrow> (error \<Rightarrow> error + 'a) \<Rightarrow> error + 'a" where
  "try_except body handler = (case body of Inl e \<Rightarrow> handler e | Inr x \<Rightarrow> Inr x)"

text \<open>The SQLite statements of \<open>add\<close> and \<open>get_recent\<close>.\<close>

definition insert_row ::
  "bool \<Rightarrow> int \<Rightarrow> ConversationMemory \<Rightarrow> string \<Rightarrow> string \<Rightarrow> string option
     \<Rightarrow> error + ConversationMemory" where
  "insert_row ok now m r c md =
     (if ok
      then Inr (m\<lparr>rows := rows m @ [\<lparr>role = r, content = c, timestamp = now, metadata = md\<rparr>]\<rparr>)
      else Inl (Error ''sqlite3''))"

definition select_recent :: "bool \<Rightarrow> ConversationMemory \<Rightarrow> int option \<Rightarrow> error + message list" where
  "select_recent ok m n =
     (if \<not> fits_int64 (effective_limit m n) then Inl (Error ''OverflowError'')
      else if \<not> ok then Inl (Error ''sqlite3'')
      else Inr (map (\<lambda>r. (role r, content r)) (get_recent_rows m n)))"

definition add_exn ::
  "bool \<Rightarrow> int \<Rightarrow> ConversationMemory \<Rightarrow> string \<Rightarrow> string \<Rightarrow> string option
     \<Rightarrow> error + ConversationMemory" where
  "add_exn ok now m r c md = try_except (insert_row ok now m r c md) (\<lambda>e. Inr m)"

definition add_exchange_exn ::
  "bool \<times> int \<Rightarrow> bool \<times> int \<Rightarrow> ConversationMemory \<Rightarrow> string \<Rightarrow> string
     \<Rightarrow> error + ConversationMemory" where
  "add_exchange_exn w1 w2 m user_msg assistant_msg =
     then_do (add_exn (fst w1) (snd w1) m ''user'' user_msg None)
       (\<lambda>m1. add_exn (fst w2) (snd w2) m1 ''assistant'' assistant_msg None)"

definition get_recent_exn :: "bool \<Rightarrow> ConversationMemory \<Rightarrow> int option \<Rightarrow> error + message list" where
  "get_recent_exn ok m n = try_except (select_recent ok m n) (\<lambda>e. Inr [])"

definition build_messages_exn :: "llm_env \<Rightarrow> LLMRouter \<Rightarrow> string \<Rightarrow> error + message list" where
  "build_messages_exn env s user_message =
     then_do (get_recent_exn (db_read_ok env) (memory s) (Some (max_history s)))
       (\<lambda>history. Inr ([(''system'', SYSTEM_PROMPT)] @ history @ [(''user'', user_message)]))"

definition choose_model :: "LLMRouter \<Rightarrow> string option list \<Rightarrow> bool \<times> LLMRouter" where
  "choose_model s response =
     (let available_models = truthy_names response in
      case find (str_in (ollama_model_name s)) available_models of
        Some match \<Rightarrow>
          (True, s\<lparr>ollama_model_name := match, ollama_available := Some True\<rparr>)
      | None \<Rightarrow>
          (case first_fallback fallbacks available_models of
             Some match \<Rightarrow>
               (True, s\<lparr>ollama_model_name := match, ollama_available := Some True\<rparr>)
           | None \<Rightarrow>
               (case available_models of
                  first # rest \<Rightarrow>
                    (True, s\<lparr>ollama_model_name := first, ollama_available := Some True\<rparr>)
                | [] \<Rightarrow> (False, s\<lparr>ollama_available := Some False\<rparr>))))"

definition check_ollama_exn :: "llm_env \<Rightarrow> LLMRouter \<Rightarrow> error + bool \<times> LLMRouter" where
  "check_ollama_exn env s =
     (case ollama_available s of
        Some b \<Rightarrow> Inr (b, s)
      | None \<Rightarrow>
          try_except
            (then_do (ollama_list env) (\<lambda>response. Inr (choose_model s response)))
            (\<lambda>e. Inr (False, s\<lparr>ollama_available := Some False\<rparr>)))"

text \<open>In \<open>_check_lmstudio\<close> the client is assigned between the two calls that can
  raise, so the handler finds it set when the second one raises.\<close>

definition check_lmstudio_exn :: "llm_env \<Rightarrow> LLMRouter \<Rightarrow> error + bool \<times> LLMRouter" where
  "check_lmstudio_exn env s =
     (case lmstudio_available s of
        Some b \<Rightarrow> Inr (b, s)
      | None \<Rightarrow>
          try_except
            (then_do (lmstudio_init env)
               (\<lambda>u. let s1 = s\<lparr>lmstudio_client := True\<rparr> in
                  try_except
                    (then_do (lmstudio_models env)
                       (\<lambda>models.
                          if models \<noteq> [] then Inr (True, s1\<lparr>lmstudio_available := Some True\<rparr>)
                          else Inr (False, s1\<lparr>lmstudio_available := Some False\<rparr>)))
                    (\<lambda>e. Inr (False, s1\<lparr>lmstudio_available := Some False\<rparr>))))
            (\<lambda>e. Inr (False, s\<lparr>lmstudio_available := Some False\<rparr>)))"

definition configure_online_exn :: "llm_env \<Rightarrow> LLMRouter \<Rightarrow> error + LLMRouter" where
  "configure_online_exn env s =
     then_do
       (if \<not> groq_client s \<and> GROQ_API_KEY env \<noteq> []
        then try_except (then_do (groq_init env) (\<lambda>u. Inr (s\<lparr>groq_client := True\<rparr>)))
               (\<lambda>e. Inr s)
        else Inr s)
       (\<lambda>s1. then_do
          (if \<not> nvidia_client s1 \<and> NVIDIA_API_KEY env \<noteq> []
           then try_except (then_do (nvidia_init env) (\<lambda>u. Inr (s1\<lparr>nvidia_client := True\<rparr>)))
                  (\<lambda>e. Inr s1)
           else Inr s1)
          (\<lambda>s2. then_do
             (if \<not> openrouter_client s2 \<and> OPENROUTER_API_KEY env \<noteq> []
              then try_except
                     (then_do (openrouter_init env) (\<lambda>u. Inr (s2\<lparr>openrouter_client := True\<rparr>)))
                     (\<lambda>e. Inr s2)
              else Inr s2)
             (\<lambda>s3. if \<not> gemini_client s3 \<and> GEMINI_API_KEY env \<noteq> []
                   then try_except
                          (then_do (gemini_init env) (\<lambda>u. Inr (s3\<lparr>gemini_client := True\<rparr>)))
                          (\<lambda>e. Inr s3)
                   else Inr s3)))"

definition chat_lmstudio_exn ::
  "llm_env \<Rightarrow> LLMRouter \<Rightarrow> string \<Rightarrow> error + string option \<times> LLMRouter" where
  "chat_lmstudio_exn env s user_message =
     (if \<not> lmstudio_client s then Inr (None, s)
      else try_except
             (then_do (build_messages_exn env s user_message)
                (\<lambda>messages. then_do (lmstudio_chat env messages) (\<lambda>r. Inr (r, s))))
             (\<lambda>e. Inr (None, s\<lparr>lmstudio_available := Some False\<rparr>)))"

definition chat_ollama_exn ::
  "llm_env \<Rightarrow> LLMRouter \<Rightarrow> string \<Rightarrow> error + string option \<times> LLMRouter" where
  "chat_ollama_exn env s user_message =
     try_except
       (then_do (build_messages_exn env s user_message)
          (\<lambda>messages. then_do (ollama_chat env (ollama_model_name s) messages)
             (\<lambda>r. Inr (r, s))))
       (\<lambda>e. Inr (None, s\<lparr>ollama_available := Some False\<rparr>))"

definition chat_groq_exn :: "llm_env \<Rightarrow> LLMRouter \<Rightarrow> string \<Rightarrow> error + string option" where
  "chat_groq_exn env s user_message =
     (if \<not> groq_client s then Inr None
      else try_except
             (then_do (build_messages_exn env s user_message) (groq_chat env))
             (\<lambda>e. Inr None))"

definition chat_nvidia_exn :: "llm_env \<Rightarrow> LLMRouter \<Rightarrow> string \<Rightarrow> error + string option" where
  "chat_nvidia_exn env s user_message =
     (if \<not> nvidia_client s then Inr None
      else try_except
             (then_do (build_messages_exn env s user_message) (nvidia_chat env))
             (\<lambda>e. Inr None))"

definition chat_openrouter_exn :: "llm_env \<Rightarrow> LLMRouter \<Rightarrow> string \<Rightarrow> error + string option" where
  "chat_openrouter_exn env s user_message =
     (if \<not> openrouter_client s then Inr None
      else try_except
             (then_do (build_messages_exn env s user_message) (openrouter_chat env))
             (\<lambda>e. Inr None))"

definition chat_gemini_exn :: "llm_env \<Rightarrow> LLMRouter \<Rightarrow> string \<Rightarrow> error + string option" where
  "chat_gemini_exn env s user_message =
     (if \<not> gemini_client s then Inr None
      else try_except
             (then_do (get_summary_context (memory s))
                (\<lambda>history_text.
                   gemini_generate env (gemini_prompt history_text user_message)))
             (\<lambda>e. Inr None))"

definition chain_response_exn ::
  "llm_env \<Rightarrow> LLMRouter \<Rightarrow> string \<Rightarrow> error + string option \<times> LLMRouter" where
  "chain_response_exn env s0 user_message =
     then_do (configure_online_exn env s0) (\<lambda>s1.
     then_do
       (if prefer_local s1
        then then_do (check_ollama_exn env s1)
               (\<lambda>(ok, s'). if ok then chat_ollama_exn env s' user_message else Inr (None, s'))
        else Inr (None, s1)) (\<lambda>(response1, s2).
     then_do
       (if response1 = None \<and> prefer_local s2
        then then_do (check_lmstudio_exn env s2)
               (\<lambda>(ok, s'). if ok then chat_lmstudio_exn env s' user_message
                          else Inr (response1, s'))
        else Inr (response1, s2)) (\<lambda>(response2, s3).
     then_do
       (if response2 = None then chat_groq_exn env s3 user_message else Inr response2)
       (\<lambda>response3.
     then_do
       (if response3 = None then chat_nvidia_exn env s3 user_message else Inr response3)
       (\<lambda>response4.
     then_do
       (if response4 = None then chat_openrouter_exn env s3 user_message else Inr response4)
       (\<lambda>response5.
     then_do
       (if response5 = None then chat_gemini_exn env s3 user_message else Inr response5)
       (\<lambda>response6. Inr (response6, s3))))))))"

definition chat_exn :: "llm_env \<Rightarrow> LLMRouter \<Rightarrow> string \<Rightarrow> error + string \<times> LLMRouter" where
  "chat_exn env s user_message =
     then_do (chain_response_exn env s user_message)
       (\<lambda>(response6, s').
          case response6 of
            None \<Rightarrow> Inr (apology, s')
          | Some response \<Rightarrow>
              then_do (add_exchange_exn (db_write_user env) (db_write_assistant env)
                         (memory s') user_message response)
                (\<lambda>m. Inr (response, s'\<lparr>memory := m\<rparr>)))"

section \<open>config.py and stt.py: SpeechToText.listen\_with\_vad\<close>

definition SAMPLE_RATE :: nat where
  "SAMPLE_RATE = 16000"

definition VAD_THRESHOLD :: real where
  "VAD_THRESHOLD = 5 / 10"

definition SILENCE_DURATION_MS :: nat where
  "SILENCE_DURATION_MS = 700"

definition MIN_SPEECH_DURATION_MS :: nat where
  "MIN_SPEECH_DURATION_MS = 250"

definition samples_per_chunk :: nat where
  "samples_per_chunk = 512"

text \<open>
  Lines 86-87 divide as floats and truncate with \<open>int\<close>; the quotients 21.875 and
  7.8125 are exact in binary floating point, so integer division gives the same 21 and 7.
\<close>

definition silence_threshold :: nat where
  "silence_threshold = SILENCE_DURATION_MS * SAMPLE_RATE div 1000 div samples_per_chunk"

definition min_speech_threshold :: nat where
  "min_speech_threshold = MIN_SPEECH_DURATION_MS * SAMPLE_RATE div 1000 div samples_per_chunk"

text \<open>The local variables of \<open>listen_with_vad\<close> and the audio buffer.\<close>

record vad_state =
  audio_buffer :: "bytes list"
  silence_samples :: nat
  speech_samples :: nat
  has_speech :: bool

definition initial_vad_state :: vad_state where
  "initial_vad_state =
     \<lparr>audio_buffer = [], silence_samples = 0, speech_samples = 0, has_speech = False\<rparr>"

text \<open>
  The loop of lines 94-113.  Its input is the results of the calls of
  \<open>get_audio_chunk\<close> that fit into the listening window, in order: a chunk, or \<open>None\<close>
  for a poll that timed out; when the list is used up, \<open>max_duration\<close> has elapsed.  The
  voice-activity model is the function \<open>vad\<close> from a chunk to its speech probability.  The
  loop returns its final state and the polls it has not consumed (none unless it left by
  \<open>break\<close>).
\<close>

fun vad_loop ::
  "(bytes \<Rightarrow> real) \<Rightarrow> bytes option list \<Rightarrow> vad_state \<Rightarrow> vad_state \<times> bytes option list" where
  "vad_loop vad [] st = (st, [])"
| "vad_loop vad (None # polls) st = vad_loop vad polls st"
| "vad_loop vad (Some chunk # polls) st =
     (let st1 = st\<lparr>audio_buffer := audio_buffer st @ [chunk]\<rparr>;
          speech_prob = vad chunk
      in if speech_prob > VAD_THRESHOLD
         then (let st2 = st1\<lparr>speech_samples := speech_samples st1 + 1, silence_samples := 0\<rparr>
               in if speech_samples st2 \<ge> min_speech_threshold
                  then vad_loop vad polls (st2\<lparr>has_speech := True\<rparr>)
                  else vad_loop vad polls st2)
         else if has_speech st1
              then (let st2 = st1\<lparr>silence_samples := silence_samples st1 + 1\<rparr>
                    in if silence_samples st2 \<ge> silence_threshold
                       then (st2, polls)
                       else vad_loop vad polls st2)
              else vad_loop vad polls st1)"

text \<open>\<open>listen_with_vad\<close> (lines 68-120): \<open>None\<close> without confirmed speech, else the
  joined buffer.\<close>

definition listen_with_vad :: "(bytes \<Rightarrow> real) \<Rightarrow> bytes option list \<Rightarrow> bytes option" where
  "listen_with_vad vad polls =
     (let st = fst (vad_loop vad polls initial_vad_state)
      in if \<not> has_speech st then None else Some (concat (audio_buffer st)))"

text \<open>The chunks among a list of polls, and whether the model classifies a chunk as
  speech.\<close>

fun received :: "bytes option list \<Rightarrow> bytes list" where
  "received [] = []"
| "received (None # polls) = received polls"
| "received (Some chunk # polls) = chunk # received polls"

definition is_speech :: "(bytes \<Rightarrow> real) \<Rightarrow> bytes \<Rightarrow> bool" where
  "is_speech vad chunk = (vad chunk > VAD_THRESHOLD)"

text \<open>
  The counter the specification describes: it counts speech chunks and is reset by a
  silence chunk.  \<open>longest_speech_run\<close> is the largest value that counter reaches on a
  list of chunks, started at \<open>run\<close>.
\<close>

fun longest_speech_run :: "(bytes \<Rightarrow> real) \<Rightarrow> bytes list \<Rightarrow> nat \<Rightarrow> nat" where
  "longest_speech_run vad [] run = run"
| "longest_speech_run vad (chunk # chunks) run =
     (if is_speech vad chunk then longest_speech_run vad chunks (Suc run)
      else max run (longest_speech_run vad chunks 0))"

text \<open>An example: 1024-byte chunks of two kinds, a model that hears speech in the first
  kind only, and seven speech chunks with a silence chunk after each.\<close>

definition speech_chunk :: bytes where
  "speech_chunk = replicate 1024 1"

definition silent_chunk :: bytes where
  "silent_chunk = replicate 1024 0"

definition example_vad :: "bytes \<Rightarrow> real" where
  "example_vad chunk = (if chunk = speech_chunk then 9 / 10 else 1 / 10)"

definition sporadic_polls :: "bytes option list" where
  "sporadic_polls =
     [Some speech_chunk, Some silent_chunk, Some speech_chunk, Some silent_chunk,
      Some speech_chunk, Some silent_chunk, Some speech_chunk, Some silent_chunk,
      Some speech_chunk, Some silent_chunk, Some speech_chunk, Some silent_chunk,
      Some speech_chunk, Some silent_chunk]"

definition steady_polls :: "bytes option list" where
  "steady_polls =
     [Some silent_chunk, None, Some speech_chunk, Some speech_chunk, Some speech_chunk,
      Some speech_chunk, Some speech_chunk, Some speech_chunk, Some speech_chunk]"

section \<open>skill\_response.py, base\_skill.py and skill\_router.py: SkillRouter\<close>

text \<open>The dataclass \<open>SkillResponse\<close>; its field \<open>text\<close> is \<open>response_text\<close> here.  A
  handler returns a plain string or a \<open>SkillResponse\<close>.\<close>

record SkillResponse =
  response_text :: string
  continue_listening :: bool
  timeout :: real

datatype response = Str string | Structured SkillResponse

text \<open>The context dictionary \<open>{"confidence": confidence}\<close> that main.py passes.\<close>

type_synonym skill_context = "(string \<times> real) list"

text \<open>
  A registered skill object.  \<open>load_skills\<close> registers subclasses of \<open>BaseSkill\<close>, which
  inherit \<open>name\<close>, \<open>description\<close>, \<open>keywords\<close> and \<open>matches\<close>, and also plain classes
  such as \<open>ClipboardSkill\<close> or \<open>ReminderSkill\<close>, which define \<open>keywords\<close> and
  \<open>handle\<close> only; \<open>inherits_base\<close> tells the two apart.  The attribute
  \<open>keywords\<close> is the field \<open>skill_keywords\<close>.  The handler is any code: it returns
  a response or \<open>None\<close>, or raises.
\<close>

record skill =
  inherits_base :: bool
  name :: string
  description :: string
  skill_keywords :: "string list"
  handle :: "string \<Rightarrow> skill_context \<Rightarrow> error + response option"

text \<open>
  What a turn does to the world around it, in order: a handler called (with the skill's
  name and what the call returned or raised), the classifier consulted, the router and the
  chat provider called by the session, a state transition, a notification of the user
  interface, a text spoken.
\<close>

datatype AssistantState = IDLE | WAKE | LISTENING | PROCESSING | SPEAKING

datatype event =
    HandleCall string "error + response option"
  | ClassifyCall string
  | RouteCall string
  | ChatCall string
  | Transition AssistantState AssistantState
  | UiCallback string "string option"
  | Speak string

fun is_handle_call :: "event \<Rightarrow> bool" where
  "is_handle_call (HandleCall n r) = True"
| "is_handle_call e = False"

fun is_classify_call :: "event \<Rightarrow> bool" where
  "is_classify_call (ClassifyCall t) = True"
| "is_classify_call e = False"

fun calls_router_or_provider :: "event \<Rightarrow> bool" where
  "calls_router_or_provider (HandleCall n r) = True"
| "calls_router_or_provider (ClassifyCall t) = True"
| "calls_router_or_provider (RouteCall t) = True"
| "calls_router_or_provider (ChatCall t) = True"
| "calls_router_or_provider e = False"

text \<open>\<open>BaseSkill.matches\<close> (base\_skill.py, lines 41-47); on an object of a class that
  does not derive from \<open>BaseSkill\<close> the attribute lookup raises.\<close>

definition keywords_match :: "skill \<Rightarrow> string \<Rightarrow> bool" where
  "keywords_match sk txt = list_ex (\<lambda>kw. str_in (lower kw) (lower txt)) (skill_keywords sk)"

definition matches :: "skill \<Rightarrow> string \<Rightarrow> error + bool" where
  "matches sk txt = (if inherits_base sk then Inr (keywords_match sk txt) else Inl AttributeError)"

text \<open>\<open>_keyword_match\<close> (lines 135-140) over the dictionary's values in insertion
  order; the dictionary is the list of its items.\<close>

fun keyword_match :: "(string \<times> skill) list \<Rightarrow> string \<Rightarrow> error + skill option" where
  "keyword_match [] txt = Inr None"
| "keyword_match ((key, sk) # items) txt =
     (case matches sk txt of
        Inl e \<Rightarrow> Inl e
      | Inr True \<Rightarrow> Inr (Some sk)
      | Inr False \<Rightarrow> keyword_match items txt)"

text \<open>\<open>str.strip\<close> and \<open>str.replace(c, "")\<close> on ASCII text.\<close>

definition is_space :: "char \<Rightarrow> bool" where
  "is_space c = ((of_char c :: nat) \<in> {9, 10, 11, 12, 13, 28, 29, 30, 31, 32})"

definition strip :: "string \<Rightarrow> string" where
  "strip s = rev (dropWhile is_space (rev (dropWhile is_space s)))"

definition remove_char :: "char \<Rightarrow> string \<Rightarrow> string" where
  "remove_char c s = filter (\<lambda>x. x \<noteq> c) s"

fun join :: "string \<Rightarrow> string list \<Rightarrow> string" where
  "join sep [] = []"
| "join sep [x] = x"
| "join sep (x # y # ys) = x @ sep @ join sep (y # ys)"

text \<open>\<open>_llm_classify\<close> (lines 142-175).  The list of skills is built outside the
  \<open>try\<close>, so a missing \<open>description\<close> raises; the call of the classifier model and
  the clean-up of its answer are inside, so there any exception yields \<open>None\<close>.\<close>

fun skill_list :: "(string \<times> skill) list \<Rightarrow> error + string list" where
  "skill_list [] = Inr []"
| "skill_list ((key, sk) # items) =
     (if inherits_base sk
      then (case skill_list items of
              Inl e \<Rightarrow> Inl e
            | Inr entries \<Rightarrow> Inr ((key @ '': '' @ description sk) # entries))
      else Inl AttributeError)"

definition classify_prompt :: "string \<Rightarrow> string \<Rightarrow> string" where
  \<open>classify_prompt skills_text txt =
     ''Classify this user request into one of these skills, or respond "general" if none match.\<newline>''
     @ ''Skills: '' @ skills_text @ ''\<newline>\<newline>User: "'' @ txt
     @ ''"\<newline>Respond with ONLY the skill name or "general". Nothing else.''\<close>

definition clean_answer :: "string \<Rightarrow> string" where
  "clean_answer answer =
     strip (remove_char (CHR 0x27) (remove_char (CHR 0x22) (lower (strip answer))))"

definition llm_classify ::
  "(string \<Rightarrow> error + string) \<Rightarrow> (string \<times> skill) list \<Rightarrow> string \<Rightarrow> error + string option" where
  "llm_classify classifier skills txt =
     (if skills = [] then Inr None
      else case skill_list skills of
             Inl e \<Rightarrow> Inl e
           | Inr entries \<Rightarrow>
               (case classifier (classify_prompt (join '', '' entries) txt) of
                  Inl e \<Rightarrow> Inr None
                | Inr answer \<Rightarrow>
                    (let result = clean_answer answer
                     in if result = ''general'' then Inr None
                        else if map_of skills result \<noteq> None then Inr (Some result)
                        else Inr None)))"

text \<open>
  \<open>route\<close> (lines 103-133), with the events it causes.  An exception of \<open>matches\<close> or
  of the skill list is not caught and leaves \<open>route\<close> (\<open>Inl\<close>); an exception of a
  handler is caught and answered with \<open>None\<close>.
\<close>

definition route ::
  "(string \<Rightarrow> error + string) \<Rightarrow> (string \<times> skill) list \<Rightarrow> string \<Rightarrow> skill_context
     \<Rightarrow> (error + response option) \<times> event list" where
  "route classifier skills txt ctx =
     (case keyword_match skills txt of
        Inl e \<Rightarrow> (Inl e, [])
      | Inr (Some matched_skill) \<Rightarrow>
          (case handle matched_skill txt ctx of
             Inl e \<Rightarrow> (Inr None, [HandleCall (name matched_skill) (Inl e)])
           | Inr r \<Rightarrow> (Inr r, [HandleCall (name matched_skill) (Inr r)]))
      | Inr None \<Rightarrow>
          (case llm_classify classifier skills txt of
             Inl e \<Rightarrow> (Inl e, [ClassifyCall txt])
           | Inr None \<Rightarrow> (Inr None, [ClassifyCall txt])
           | Inr (Some classified_skill) \<Rightarrow>
               (if classified_skill \<noteq> []
                then (case map_of skills classified_skill of
                        None \<Rightarrow> (Inr None, [ClassifyCall txt])
                      | Some sk \<Rightarrow>
                          (case handle sk txt ctx of
                             Inl e \<Rightarrow>
                               (Inr None, [ClassifyCall txt, HandleCall classified_skill (Inl e)])
                           | Inr r \<Rightarrow>
                               (Inr r, [ClassifyCall txt, HandleCall classified_skill (Inr r)])))
                else (Inr None, [ClassifyCall txt]))))"

text \<open>Example skills: a clock whose handler answers with a plain string, one whose
  handler raises, and a music skill that asks back without requesting continuation.\<close>

definition tells_time :: "string \<Rightarrow> skill_context \<Rightarrow> error + response option" where
  "tells_time txt ctx = Inr (Some (Str ''14:32''))"

definition breaks :: "string \<Rightarrow> skill_context \<Rightarrow> error + response option" where
  "breaks txt ctx = Inl (Error ''boom'')"

definition asks_which_song :: "string \<Rightarrow> skill_context \<Rightarrow> error + response option" where
  "asks_which_song txt ctx =
     Inr (Some (Structured \<lparr>response_text = ''Which song?'', continue_listening = False,
                             timeout = 10\<rparr>))"

definition says_general :: "string \<Rightarrow> error + string" where
  "says_general prompt = Inr ''general''"

definition time_skill :: skill where
  "time_skill = \<lparr>inherits_base = True, name = ''time'', description = ''Base skill'',
                  skill_keywords = [''time''], handle = tells_time\<rparr>"

definition broken_skill :: skill where
  "broken_skill = \<lparr>inherits_base = True, name = ''weather'', description = ''Base skill'',
                    skill_keywords = [''weather'', ''rain''], handle = breaks\<rparr>"

definition music_skill :: skill where
  "music_skill = \<lparr>inherits_base = True, name = ''music'', description = ''Base skill'',
                   skill_keywords = [''play''], handle = asks_which_song\<rparr>"

definition example_skills :: "(string \<times> skill) list" where
  "example_skills = [(''time'', time_skill), (''weather'', broken_skill), (''music'', music_skill)]"

section \<open>main.py: VoiceAssistant\<close>

definition FOLLOWUP_PHRASES :: "string list" where
  "FOLLOWUP_PHRASES =
     [''what would you like'', ''what should i'', ''would you like me to'',
      ''anything else'', ''what else'', ''tell me more'',
      ''which one'', ''please specify'', ''can you clarify'']"

text \<open>
  The assistant: its state, whether a user-interface callback is set, the skills of its
  skill router and its chat router.  The world of one turn: the transcriber (the text and
  the confidence it gives for an utterance), the classifier model of the skill router and
  the world of the chat router.  The transcriber, the speech output and the user-interface
  callback are taken to return; an exception of theirs would leave \<open>_process_speech\<close>
  where it is raised.
\<close>

record VoiceAssistant =
  state :: AssistantState
  ui_callback :: bool
  skills :: "(string \<times> skill) list"
  llm :: LLMRouter

record assistant_env =
  transcribe :: "bytes \<Rightarrow> string \<times> real"
  classifier :: "string \<Rightarrow> error + string"
  llm_world :: llm_env

fun state_name :: "AssistantState \<Rightarrow> string" where
  "state_name IDLE = ''IDLE''"
| "state_name WAKE = ''WAKE''"
| "state_name LISTENING = ''LISTENING''"
| "state_name PROCESSING = ''PROCESSING''"
| "state_name SPEAKING = ''SPEAKING''"

text \<open>\<open>_transition\<close> (lines 84-89).\<close>

definition transition :: "VoiceAssistant \<Rightarrow> AssistantState \<Rightarrow> VoiceAssistant \<times> event list" where
  "transition va new_state =
     (va\<lparr>state := new_state\<rparr>,
      Transition (state va) new_state
      # (if ui_callback va then [UiCallback (state_name new_state) None] else []))"

text \<open>\<open>_should_continue_listening\<close> (lines 197-199).\<close>

definition should_continue_listening :: "string \<Rightarrow> bool" where
  "should_continue_listening final =
     (if endswith final ''?'' then True
      else list_ex (\<lambda>p. str_in p (lower final)) FOLLOWUP_PHRASES)"

text \<open>
  Lines 151-166 of \<open>_process_speech\<close>: the skill router is asked first; when its answer
  is falsy (\<open>None\<close> or the empty string; a \<open>SkillResponse\<close> object is always truthy) the
  chat router is asked.  An exception leaving \<open>route\<close> leaves \<open>_process_speech\<close>.
\<close>

definition obtain_response ::
  "assistant_env \<Rightarrow> VoiceAssistant \<Rightarrow> string \<Rightarrow> real
     \<Rightarrow> (error + response \<times> VoiceAssistant) \<times> event list" where
  "obtain_response env va txt confidence =
     (let (routed, route_events) =
            route (classifier env) (skills va) txt [(''confidence'', confidence)];
          events = RouteCall txt # route_events;
          ask_llm = (let (reply, llm') = chat (llm_world env) (llm va) txt
                     in (Inr (Str reply, va\<lparr>llm := llm'\<rparr>), events @ [ChatCall txt]))
      in case routed of
           Inl e \<Rightarrow> (Inl e, events)
         | Inr None \<Rightarrow> ask_llm
         | Inr (Some (Str s)) \<Rightarrow> if s = [] then ask_llm else (Inr (Str s, va), events)
         | Inr (Some (Structured sr)) \<Rightarrow> (Inr (Structured sr, va), events))"

text \<open>Lines 168-178: the text to speak and whether to go on listening.\<close>

definition final_text :: "response \<Rightarrow> string" where
  "final_text resp = (case resp of Str s \<Rightarrow> s | Structured sr \<Rightarrow> response_text sr)"

definition requests_continuation :: "response \<Rightarrow> bool" where
  "requests_continuation resp =
     (case resp of Str s \<Rightarrow> False | Structured sr \<Rightarrow> continue_listening sr)"

definition should_continue :: "response \<Rightarrow> bool" where
  "should_continue resp =
     (if \<not> requests_continuation resp then should_continue_listening (final_text resp)
      else True)"

text \<open>Lines 180-195: speak, then listen again or go idle.\<close>

definition speak_and_continue ::
  "VoiceAssistant \<Rightarrow> response \<Rightarrow> VoiceAssistant \<times> event list" where
  "speak_and_continue va resp =
     (let (va1, events1) = transition va SPEAKING;
          events2 = (if ui_callback va1
                     then [UiCallback ''SPEAKING'' (Some (take 50 (final_text resp) @ ''...''))]
                     else [])
                    @ [Speak (final_text resp)];
          (va2, events3) = (if should_continue resp then transition va1 LISTENING
                            else transition va1 IDLE)
      in (va2, events1 @ events2 @ events3))"

text \<open>\<open>_process_speech\<close> (lines 140-195).\<close>

definition process_speech ::
  "assistant_env \<Rightarrow> VoiceAssistant \<Rightarrow> bytes \<Rightarrow> (error + VoiceAssistant) \<times> event list" where
  "process_speech env va audio_bytes =
     (let (txt, confidence) = transcribe env audio_bytes
      in if txt = [] \<or> confidence < 4 / 10
         then (let (va', events) = transition va IDLE in (Inr va', events))
         else (let events0 = (if ui_callback va
                              then [UiCallback ''PROCESSING''
                                      (Some (''Processing: '' @ take 30 txt @ ''...''))]
                              else [])
               in case obtain_response env va txt confidence of
                    (Inl e, events1) \<Rightarrow> (Inl e, events0 @ events1)
                  | (Inr (resp, va1), events1) \<Rightarrow>
                      (let (va2, events2) = speak_and_continue va1 resp
                       in (Inr va2, events0 @ events1 @ events2))))"

text \<open>Example turns: an assistant in state PROCESSING with the example skills, and
  transcribers that hear a fixed sentence with a fixed confidence.\<close>

definition example_assistant :: VoiceAssistant where
  "example_assistant =
     \<lparr>state = PROCESSING, ui_callback = False, skills = example_skills, llm = fresh_router\<rparr>"

definition hears_play_a_song :: "bytes \<Rightarrow> string \<times> real" where
  "hears_play_a_song audio_bytes = (''play a song'', 9 / 10)"

definition hears_mumble :: "bytes \<Rightarrow> string \<times> real" where
  "hears_mumble audio_bytes = (''play a song'', 3 / 10)"

definition example_world :: "(bytes \<Rightarrow> string \<times> real) \<Rightarrow> assistant_env" where
  "example_world transcriber =
     \<lparr>transcribe = transcriber, classifier = says_general, llm_world = offline_env\<rparr>"

section \<open>Properties of ConversationMemory\<close>

lemma insort_key_greatest:
  "\<forall>x \<in> set xs. f x < f a \<Longrightarrow> insort_key f a xs = xs @ [a]"
  by (induction xs) auto

lemma insort_key_snoc_greater:
  "f y < f a \<Longrightarrow> insort_key f y (zs @ [a]) = insort_key f y zs @ [a]"
  by (induction zs) auto

lemma sort_key_snoc_greatest:
  "\<forall>x \<in> set xs. f x < f a \<Longrightarrow> sort_key f (xs @ [a]) = sort_key f xs @ [a]"
  by (induction xs) (auto simp: insort_key_snoc_greater)

lemma sorted_get_recent_rows: "sorted (map timestamp (get_recent_rows m n))"
  by (simp add: get_recent_rows_def Let_def)

lemma get_recent_rows_add_last:
  assumes "\<forall>x \<in> set (rows m). timestamp x < now" and "effective_limit m n \<noteq> 0"
  shows "get_recent_rows (add True now m r c md) n =
         (let old = rev (sort_key timestamp (rows m));
              k = effective_limit m n
          in sort_key timestamp (if k < 0 then old else take (nat k - 1) old))
         @ [\<lparr>role = r, content = c, timestamp = now, metadata = md\<rparr>]"
proof -
  let ?new = "\<lparr>role = r, content = c, timestamp = now, metadata = md\<rparr>"
  let ?old = "rev (sort_key timestamp (rows m))"
  let ?k = "effective_limit m n"
  have lim: "effective_limit (add True now m r c md) n = ?k"
    by (simp add: effective_limit_def add_def split: option.splits)
  have gt: "\<forall>x \<in> set (rows m). timestamp x < timestamp ?new"
    using assms(1) by simp
  have srt: "rev (sort_key timestamp (rows m @ [?new])) = ?new # ?old"
    using sort_key_snoc_greatest [OF gt] by simp
  show ?thesis
  proof (cases "?k < 0")
    case True
    have "\<forall>x \<in> set (sort_key timestamp ?old). timestamp x < timestamp ?new"
      using gt by simp
    then show ?thesis
      using True lim srt
      by (simp add: get_recent_rows_def add_def Let_def insort_key_greatest)
  next
    case False
    then obtain j where j: "nat ?k = Suc j"
      using assms(2) by (cases "nat ?k") auto
    have "\<forall>x \<in> set (sort_key timestamp (take j ?old)). timestamp x < timestamp ?new"
      using gt by (auto dest: in_set_takeD)
    then show ?thesis
      using False lim srt j
      by (simp add: get_recent_rows_def add_def Let_def insort_key_greatest)
  qed
qed

lemma effective_limit_add:
  "effective_limit (add ok now m r c md) n = effective_limit m n"
  by (simp add: effective_limit_def add_def split: option.splits)

text \<open>
  Claim C7, as amended.  The rows \<open>get_recent\<close> selects always come back in
  non-decreasing timestamp order, and a read that fails (an SQLite error, or a limit
  outside the signed 64-bit range that can be bound) returns the empty list.  When the
  insert succeeds, the clock reading of the \<open>add\<close> is strictly later than every timestamp
  already in the table, the limit in force is not zero and the read succeeds, the last row
  returned is the one just added, with the role and the content that were passed to
  \<open>add\<close>.
\<close>

theorem add_get_recent_newest:
  "sorted (map timestamp (get_recent_rows m n))
   \<and> (\<not> (ok \<and> fits_int64 (effective_limit m n)) \<longrightarrow> get_recent ok m n = [])
   \<and> ((\<forall>x \<in> set (rows m). timestamp x < now) \<and> effective_limit m n \<noteq> 0
        \<and> fits_int64 (effective_limit m n) \<longrightarrow>
      sorted (map timestamp (get_recent_rows (add True now m r c md) n))
      \<and> last (get_recent_rows (add True now m r c md) n)
          = \<lparr>role = r, content = c, timestamp = now, metadata = md\<rparr>
      \<and> get_recent True (add True now m r c md) n \<noteq> []
      \<and> last (get_recent True (add True now m r c md) n) = (r, c))"
proof -
  have newest: "sorted (map timestamp (get_recent_rows (add True now m r c md) n))
      \<and> last (get_recent_rows (add True now m r c md) n)
          = \<lparr>role = r, content = c, timestamp = now, metadata = md\<rparr>
      \<and> get_recent True (add True now m r c md) n \<noteq> []
      \<and> last (get_recent True (add True now m r c md) n) = (r, c)"
    if later: "\<forall>x \<in> set (rows m). timestamp x < now" and limit: "effective_limit m n \<noteq> 0"
      and fits: "fits_int64 (effective_limit m n)"
  proof -
    have "last (get_recent_rows (add True now m r c md) n)
            = \<lparr>role = r, content = c, timestamp = now, metadata = md\<rparr>"
      and "get_recent_rows (add True now m r c md) n \<noteq> []"
      using get_recent_rows_add_last [OF later limit, of r c md] by simp_all
    then show ?thesis
      using fits
      by (simp add: sorted_get_recent_rows get_recent_def last_map effective_limit_add)
  qed
  have failed: "get_recent ok m n = []" if "\<not> (ok \<and> fits_int64 (effective_limit m n))"
    using that by (auto simp: get_recent_def)
  show ?thesis
    using newest failed sorted_get_recent_rows [of m n] by blast
qed

theorem add_get_recent_newest_witness:
  "last (get_recent True
     (add True 11 \<lparr>rows = [\<lparr>role = ''user'', content = ''old'', timestamp = 10, metadata = None\<rparr>],
                  max_messages = 20\<rparr> ''user'' ''new'' None) (Some 1)) = (''user'', ''new'')
   \<and> last (get_recent_rows
     (add True 11 \<lparr>rows = [\<lparr>role = ''user'', content = ''old'', timestamp = 10, metadata = None\<rparr>],
                  max_messages = 20\<rparr> ''user'' ''new'' None) (Some 1))
       = \<lparr>role = ''user'', content = ''new'', timestamp = 11, metadata = None\<rparr>"
  using add_get_recent_newest [of "\<lparr>rows = [\<lparr>role = ''user'', content = ''old'', timestamp = 10, metadata = None\<rparr>],
                  max_messages = 20\<rparr>" "Some 1" True 11 "''user''" "''new''" None]
  by (simp add: effective_limit_def fits_int64_def)

text \<open>
  Claim C7 as stated fails when the clock reading of the \<open>add\<close> is earlier than a stored
  timestamp (\<open>datetime.now()\<close> is local wall-clock time and can step back): the table
  holds one message stamped 10, a message is added at clock reading 5, and
  \<open>get_recent(1)\<close> returns the old message, not the one just added.
\<close>

theorem add_get_recent_clock_back_counterexample:
  "get_recent True
     (add True 5 \<lparr>rows = [\<lparr>role = ''user'', content = ''old'', timestamp = 10, metadata = None\<rparr>],
                  max_messages = 20\<rparr> ''user'' ''new'' None) (Some 1)
   = [(''user'', ''old'')]
   \<and> last (get_recent True
     (add True 5 \<lparr>rows = [\<lparr>role = ''user'', content = ''old'', timestamp = 10, metadata = None\<rparr>],
                  max_messages = 20\<rparr> ''user'' ''new'' None) (Some 1)) \<noteq> (''user'', ''new'')"
  by (simp add: get_recent_def get_recent_rows_def add_def effective_limit_def fits_int64_def)

section \<open>Properties of LLMRouter\<close>

lemma memory_configure_online: "memory (configure_online env s) = memory s"
  by (simp add: configure_online_def Let_def split: sum.splits)

lemma memory_check_ollama: "memory (snd (check_ollama env s)) = memory s"
  by (simp add: check_ollama_def Let_def split: option.splits sum.splits list.splits)

lemma memory_check_lmstudio: "memory (snd (check_lmstudio env s)) = memory s"
  by (simp add: check_lmstudio_def Let_def split: option.splits sum.splits)

lemma memory_chat_ollama: "memory (snd (chat_ollama env s msg)) = memory s"
  by (simp add: chat_ollama_def split: sum.splits)

lemma memory_chat_lmstudio: "memory (snd (chat_lmstudio env s msg)) = memory s"
  by (simp add: chat_lmstudio_def split: sum.splits)

lemma memory_chain_response: "memory (snd (chain_response env s msg)) = memory s"
  by (simp add: chain_response_def Let_def split_beta memory_configure_online
      memory_check_ollama memory_check_lmstudio memory_chat_ollama memory_chat_lmstudio)

lemma gemini_step_none: "chat_gemini env s msg = None"
  by (simp add: chat_gemini_def get_summary_context_def)

lemma chain_response_origin:
  assumes "fst (chain_response env s msg) = Some r"
  shows "(\<exists>s'. fst (chat_ollama env s' msg) = Some r)
       \<or> (\<exists>s'. fst (chat_lmstudio env s' msg) = Some r)
       \<or> (\<exists>s'. chat_groq env s' msg = Some r)
       \<or> (\<exists>s'. chat_nvidia env s' msg = Some r)
       \<or> (\<exists>s'. chat_openrouter env s' msg = Some r)"
  using assms
  by (simp add: chain_response_def Let_def split_beta gemini_step_none split: if_splits)
     metis+

lemma step_results:
  "fst (chat_ollama env s msg) = Some r \<Longrightarrow> \<exists>model msgs. ollama_chat env model msgs = Inr (Some r)"
  "fst (chat_lmstudio env s msg) = Some r \<Longrightarrow> \<exists>msgs. lmstudio_chat env msgs = Inr (Some r)"
  "chat_groq env s msg = Some r \<Longrightarrow> \<exists>msgs. groq_chat env msgs = Inr (Some r)"
  "chat_nvidia env s msg = Some r \<Longrightarrow> \<exists>msgs. nvidia_chat env msgs = Inr (Some r)"
  "chat_openrouter env s msg = Some r \<Longrightarrow> \<exists>msgs. openrouter_chat env msgs = Inr (Some r)"
  by (auto simp: chat_ollama_def chat_lmstudio_def chat_groq_def chat_nvidia_def
      chat_openrouter_def split: if_splits sum.splits)

lemma apology_nonempty: "apology \<noteq> []"
  by (simp add: apology_def)

lemma chain_offline:
  "chain_response offline_env fresh_router ''hi'' =
     (None, fresh_router\<lparr>ollama_available := Some False, lmstudio_client := True,
                         lmstudio_available := Some False\<rparr>)"
  by (simp add: chain_response_def configure_online_def check_ollama_def check_lmstudio_def
      chat_groq_def chat_nvidia_def chat_openrouter_def chat_gemini_def
      offline_env_def fresh_router_def Let_def)

lemma check_ollama_keeps:
  "prefer_local (snd (check_ollama env s)) = prefer_local s"
  "max_history (snd (check_ollama env s)) = max_history s"
  "memory (snd (check_ollama env s)) = memory s"
  "groq_client (snd (check_ollama env s)) = groq_client s"
  "nvidia_client (snd (check_ollama env s)) = nvidia_client s"
  "openrouter_client (snd (check_ollama env s)) = openrouter_client s"
  "lmstudio_client (snd (check_ollama env s)) = lmstudio_client s"
  "lmstudio_available (snd (check_ollama env s)) = lmstudio_available s"
  by (simp_all add: check_ollama_def Let_def split: option.splits sum.splits list.splits)

lemma chat_ollama_keeps:
  "prefer_local (snd (chat_ollama env s msg)) = prefer_local s"
  "max_history (snd (chat_ollama env s msg)) = max_history s"
  "memory (snd (chat_ollama env s msg)) = memory s"
  "groq_client (snd (chat_ollama env s msg)) = groq_client s"
  "nvidia_client (snd (chat_ollama env s msg)) = nvidia_client s"
  "openrouter_client (snd (chat_ollama env s msg)) = openrouter_client s"
  "lmstudio_client (snd (chat_ollama env s msg)) = lmstudio_client s"
  "lmstudio_available (snd (chat_ollama env s msg)) = lmstudio_available s"
  by (simp_all add: chat_ollama_def split: sum.splits)

lemma check_lmstudio_keeps:
  "prefer_local (snd (check_lmstudio env s)) = prefer_local s"
  "max_history (snd (check_lmstudio env s)) = max_history s"
  "memory (snd (check_lmstudio env s)) = memory s"
  "groq_client (snd (check_lmstudio env s)) = groq_client s"
  "nvidia_client (snd (check_lmstudio env s)) = nvidia_client s"
  "openrouter_client (snd (check_lmstudio env s)) = openrouter_client s"
  by (simp_all add: check_lmstudio_def Let_def split: option.splits sum.splits)

lemma chat_lmstudio_keeps:
  "prefer_local (snd (chat_lmstudio env s msg)) = prefer_local s"
  "max_history (snd (chat_lmstudio env s msg)) = max_history s"
  "memory (snd (chat_lmstudio env s msg)) = memory s"
  "groq_client (snd (chat_lmstudio env s msg)) = groq_client s"
  "nvidia_client (snd (chat_lmstudio env s msg)) = nvidia_client s"
  "openrouter_client (snd (chat_lmstudio env s msg)) = openrouter_client s"
  by (simp_all add: chat_lmstudio_def split: sum.splits)

lemma online_step_cong:
  assumes "max_history s' = max_history s" "memory s' = memory s"
      "groq_client s' = groq_client s" "nvidia_client s' = nvidia_client s"
      "openrouter_client s' = openrouter_client s"
  shows "chat_groq env s' msg = chat_groq env s msg"
    and "chat_nvidia env s' msg = chat_nvidia env s msg"
    and "chat_openrouter env s' msg = chat_openrouter env s msg"
  using assms
  by (simp_all add: chat_groq_def chat_nvidia_def chat_openrouter_def build_messages_def)

lemma check_lmstudio_cong:
  assumes "lmstudio_client s' = lmstudio_client s"
      "lmstudio_available s' = lmstudio_available s"
  shows "fst (check_lmstudio env s') = fst (check_lmstudio env s)"
    and "lmstudio_client (snd (check_lmstudio env s')) = lmstudio_client (snd (check_lmstudio env s))"
  using assms
  by (cases "lmstudio_available s"; cases "lmstudio_init env"; cases "lmstudio_models env";
      simp add: check_lmstudio_def Let_def)+

lemma chat_lmstudio_cong:
  assumes "max_history s' = max_history s" "memory s' = memory s"
      "lmstudio_client s' = lmstudio_client s"
  shows "fst (chat_lmstudio env s' msg) = fst (chat_lmstudio env s msg)"
  using assms
  by (cases "lmstudio_chat env (build_messages env s msg)")
     (simp_all add: chat_lmstudio_def build_messages_def)

lemma try_lmstudio_cong:
  assumes "prefer_local s' = prefer_local s" "max_history s' = max_history s"
      "memory s' = memory s" "lmstudio_client s' = lmstudio_client s"
      "lmstudio_available s' = lmstudio_available s"
  shows "try_lmstudio env s' msg = try_lmstudio env s msg"
proof -
  have "fst (chat_lmstudio env (snd (check_lmstudio env s')) msg)
      = fst (chat_lmstudio env (snd (check_lmstudio env s)) msg)"
    using assms check_lmstudio_cong(2) [of s' s env]
    by (intro chat_lmstudio_cong) (simp_all add: check_lmstudio_keeps)
  then show ?thesis
    using assms check_lmstudio_cong(1) [of s' s env] by (simp add: try_lmstudio_def)
qed

lemma first_reply_None: "first_reply xs = None \<longleftrightarrow> (\<forall>x \<in> set xs. x = None)"
  by (induction xs rule: first_reply.induct) auto

lemma first_reply_first:
  "\<forall>x \<in> set pre. x = None \<Longrightarrow> first_reply (pre @ Some r # post) = Some r"
  by (induction pre rule: first_reply.induct) auto

lemma chain_response_first_reply:
  "fst (chain_response env s msg) = first_reply (chain_replies env s msg)"
proof -
  define s1 where "s1 = configure_online env s"
  define local1 where "local1 =
    (if prefer_local s1
     then (let (ok, s') = check_ollama env s1
           in if ok then chat_ollama env s' msg else (None, s'))
     else (None, s1))"
  obtain r1 s2 where st1: "local1 = (r1, s2)"
    by (cases local1)
  define local2 where "local2 =
    (if r1 = None \<and> prefer_local s2
     then (let (ok, s') = check_lmstudio env s2
           in if ok then chat_lmstudio env s' msg else (r1, s'))
     else (r1, s2))"
  obtain r2 s3 where st2: "local2 = (r2, s3)"
    by (cases local2)
  have sel1: "r1 = fst local1" "s2 = snd local1"
    using st1 by simp_all
  have sel2: "r2 = fst local2" "s3 = snd local2"
    using st2 by simp_all
  have r1: "r1 = try_ollama env s1 msg"
    by (simp add: sel1 local1_def try_ollama_def split_beta)
  have s2: "prefer_local s2 = prefer_local s1" "max_history s2 = max_history s1"
    "memory s2 = memory s1" "groq_client s2 = groq_client s1"
    "nvidia_client s2 = nvidia_client s1" "openrouter_client s2 = openrouter_client s1"
    "lmstudio_client s2 = lmstudio_client s1" "lmstudio_available s2 = lmstudio_available s1"
    by (simp_all add: sel1 local1_def split_beta check_ollama_keeps chat_ollama_keeps)
  have "r2 = (if r1 = None then try_lmstudio env s2 msg else r1)"
    by (simp add: sel2 local2_def try_lmstudio_def split_beta)
  then have r2: "r2 = (if r1 = None then try_lmstudio env s1 msg else r1)"
    using try_lmstudio_cong [of s2 s1 env msg] s2 by simp
  have s3: "max_history s3 = max_history s1" "memory s3 = memory s1"
    "groq_client s3 = groq_client s1" "nvidia_client s3 = nvidia_client s1"
    "openrouter_client s3 = openrouter_client s1"
    by (simp_all add: sel2 local2_def split_beta check_lmstudio_keeps chat_lmstudio_keeps s2)
  have steps: "chat_groq env s3 msg = chat_groq env s1 msg"
    "chat_nvidia env s3 msg = chat_nvidia env s1 msg"
    "chat_openrouter env s3 msg = chat_openrouter env s1 msg"
    using online_step_cong [of s3 s1 env msg] s3 by simp_all
  have "chain_response env s msg =
      (let (response1, s2') = local1;
           (response2, s3') =
             (if response1 = None \<and> prefer_local s2'
              then (let (ok, s') = check_lmstudio env s2'
                    in if ok then chat_lmstudio env s' msg else (response1, s'))
              else (response1, s2'));
           response3 = (if response2 = None then chat_groq env s3' msg else response2);
           response4 = (if response3 = None then chat_nvidia env s3' msg else response3);
           response5 = (if response4 = None then chat_openrouter env s3' msg else response4);
           response6 = (if response5 = None then chat_gemini env s3' msg else response5)
       in (response6, s3'))"
    unfolding chain_response_def local1_def s1_def Let_def by (rule refl)
  also have "\<dots> =
      (let (response2, s3') = local2;
           response3 = (if response2 = None then chat_groq env s3' msg else response2);
           response4 = (if response3 = None then chat_nvidia env s3' msg else response3);
           response5 = (if response4 = None then chat_openrouter env s3' msg else response4);
           response6 = (if response5 = None then chat_gemini env s3' msg else response5)
       in (response6, s3'))"
    unfolding st1 local2_def by simp
  also have "\<dots> =
      (first_reply [r2, chat_groq env s1 msg, chat_nvidia env s1 msg,
          chat_openrouter env s1 msg, chat_gemini env s1 msg], s3)"
    unfolding st2
    by (cases r2; cases "chat_groq env s1 msg"; cases "chat_nvidia env s1 msg";
        cases "chat_openrouter env s1 msg")
       (simp_all add: steps gemini_step_none)
  finally have "fst (chain_response env s msg) =
      first_reply [r2, chat_groq env s1 msg, chat_nvidia env s1 msg,
          chat_openrouter env s1 msg, chat_gemini env s1 msg]"
    by simp
  also have "\<dots> = first_reply [r1, try_lmstudio env s1 msg, chat_groq env s1 msg,
      chat_nvidia env s1 msg, chat_openrouter env s1 msg, chat_gemini env s1 msg]"
    by (cases r1; cases "try_lmstudio env s1 msg") (simp_all add: r2)
  finally show ?thesis
    by (simp add: chain_replies_def r1 s1_def Let_def)
qed

lemma first_reply_in: "first_reply xs = Some r \<Longrightarrow> Some r \<in> set xs"
  by (induction xs rule: first_reply.induct) auto

subsection \<open>The methods never raise\<close>

lemma then_do_Inr: "then_do (Inr x) rest = rest x"
  by (simp add: then_do_def)

lemma init_step:
  "(if c then try_except (then_do init (\<lambda>u. Inr s')) (\<lambda>e. Inr s) else Inr s)
     = Inr (if c then (case init of Inl e \<Rightarrow> s | Inr u \<Rightarrow> s') else s)"
  by (cases init) (simp_all add: try_except_def then_do_def)

lemma configure_online_exn_eq: "configure_online_exn env s = Inr (configure_online env s)"
  unfolding configure_online_exn_def configure_online_def Let_def init_step then_do_Inr
  by (rule refl)

lemma if_Inr: "(if c then Inr a else Inr b) = Inr (if c then a else b)"
  by simp

lemma step_exn:
  "then_do (Inr (p :: bool \<times> LLMRouter)) (\<lambda>(ok, s'). if ok then Inr (f s') else Inr (g s'))
     = Inr (let (ok, s') = p in if ok then f s' else g s')"
  by (cases p) (simp add: then_do_def)

lemma add_exn_eq: "add_exn ok now m r c md = Inr (add ok now m r c md)"
  by (simp add: add_exn_def try_except_def insert_row_def add_def)


lemma add_exchange_exn_eq:
  "add_exchange_exn w1 w2 m user_msg assistant_msg = Inr (add_exchange w1 w2 m user_msg assistant_msg)"
  by (simp add: add_exchange_exn_def add_exchange_def add_exn_eq then_do_Inr)


lemma get_recent_exn_eq: "get_recent_exn ok m n = Inr (get_recent ok m n)"
  by (simp add: get_recent_exn_def try_except_def select_recent_def get_recent_def)


lemma build_messages_exn_eq: "build_messages_exn env s msg = Inr (build_messages env s msg)"
  by (simp add: build_messages_exn_def build_messages_def get_recent_exn_eq then_do_Inr)


lemma check_ollama_exn_eq: "check_ollama_exn env s = Inr (check_ollama env s)"
  by (simp add: check_ollama_exn_def check_ollama_def choose_model_def try_except_def
      then_do_def Let_def split: option.splits sum.splits list.splits)


lemma check_lmstudio_exn_eq: "check_lmstudio_exn env s = Inr (check_lmstudio env s)"
  by (simp add: check_lmstudio_exn_def check_lmstudio_def try_except_def
      then_do_def Let_def split: option.splits sum.splits)


lemma chat_steps_exn_eq:
  "chat_lmstudio_exn env s msg = Inr (chat_lmstudio env s msg)"
  "chat_ollama_exn env s msg = Inr (chat_ollama env s msg)"
  "chat_groq_exn env s msg = Inr (chat_groq env s msg)"
  "chat_nvidia_exn env s msg = Inr (chat_nvidia env s msg)"
  "chat_openrouter_exn env s msg = Inr (chat_openrouter env s msg)"
  "chat_gemini_exn env s msg = Inr (chat_gemini env s msg)"
  by (simp_all add: chat_lmstudio_exn_def chat_lmstudio_def chat_ollama_exn_def chat_ollama_def
      chat_groq_exn_def chat_groq_def chat_nvidia_exn_def chat_nvidia_def
      chat_openrouter_exn_def chat_openrouter_def chat_gemini_exn_def chat_gemini_def
      build_messages_exn_eq try_except_def then_do_def split: sum.splits)


lemma case_prod_Inr: "(case p of (a, b) \<Rightarrow> Inr (f a b)) = Inr (case p of (a, b) \<Rightarrow> f a b)"
  by (cases p) simp

lemma chain_response_exn_eq: "chain_response_exn env s msg = Inr (chain_response env s msg)"
  unfolding chain_response_exn_def chain_response_def configure_online_exn_eq
    check_ollama_exn_eq check_lmstudio_exn_eq chat_steps_exn_eq step_exn if_Inr then_do_Inr
    case_prod_Inr Let_def
  by (rule refl)

lemma chat_exn_eq: "chat_exn env s msg = Inr (chat env s msg)"
  by (simp add: chat_exn_def chat_def chain_response_exn_eq add_exchange_exn_eq then_do_Inr
      split: prod.splits option.splits)

subsection \<open>What chat returns\<close>

lemma chat_value:
  "fst (chat env s msg)
     = (case first_reply (chain_replies env s msg) of None \<Rightarrow> apology | Some r \<Rightarrow> r)"
  using chain_response_first_reply [of env s msg]
  by (cases "chain_response env s msg") (simp add: chat_def split: option.splits)

lemma chat_memory:
  "memory (snd (chat env s msg))
     = (case first_reply (chain_replies env s msg) of
          None \<Rightarrow> memory s
        | Some r \<Rightarrow>
            add_exchange (db_write_user env) (db_write_assistant env) (memory s) msg r)"
  using chain_response_first_reply [of env s msg] memory_chain_response [of env s msg]
  by (cases "chain_response env s msg") (simp add: chat_def split: option.splits)

lemma chain_replies_offline:
  "chain_replies offline_env fresh_router ''hi'' = [None, None, None, None, None, None]"
  by (simp add: chain_replies_def try_ollama_def try_lmstudio_def configure_online_def
      check_ollama_def check_lmstudio_def chat_groq_def chat_nvidia_def chat_openrouter_def
      chat_gemini_def offline_env_def fresh_router_def Let_def)

lemma chain_replies_hello:
  "chain_replies hello_env fresh_router ''hi'' = [None, None, Some ''Hello!'', None, None, None]"
  by (simp add: chain_replies_def try_ollama_def try_lmstudio_def configure_online_def
      check_ollama_def check_lmstudio_def chat_groq_def chat_nvidia_def chat_openrouter_def
      chat_gemini_def hello_env_def offline_env_def fresh_router_def replies_hello_def Let_def)

lemma chain_replies_groq_empty:
  "chain_replies groq_empty_env fresh_router ''hi'' = [None, None, Some [], None, None, None]"
  by (simp add: chain_replies_def try_ollama_def try_lmstudio_def configure_online_def
      check_ollama_def check_lmstudio_def chat_groq_def chat_nvidia_def chat_openrouter_def
      chat_gemini_def groq_empty_env_def offline_env_def fresh_router_def replies_empty_def
      Let_def)

text \<open>
  Claim C1, as amended.  \<open>chat\<close> never raises: written with every exception passed on
  unless a \<open>try\<close> of the source catches it, it still always returns, and returns what
  \<open>chat\<close> computes.  It returns the reply of the first backend, in the order of the
  chain, whose step yields a reply that is not \<open>None\<close>, whatever that reply is (the
  empty string too), and the apology, which is not empty, when every step yields
  \<open>None\<close>.  So the string returned is not empty as long as no step replies with the
  empty string.
\<close>

theorem chat_returns_first_reply:
  "chat_exn env s msg = Inr (chat env s msg)
   \<and> (\<forall>pre r post.
        chain_replies env s msg = pre @ Some r # post \<and> (\<forall>x \<in> set pre. x = None)
        \<longrightarrow> fst (chat env s msg) = r)
   \<and> ((\<forall>x \<in> set (chain_replies env s msg). x = None) \<longrightarrow> fst (chat env s msg) = apology)
   \<and> apology \<noteq> []
   \<and> ((\<forall>x \<in> set (chain_replies env s msg). x \<noteq> Some []) \<longrightarrow> fst (chat env s msg) \<noteq> [])"
proof -
  have first: "fst (chat env s msg) = r"
    if "chain_replies env s msg = pre @ Some r # post" and "\<forall>x \<in> set pre. x = None"
    for pre r post
    using that first_reply_first [of pre r post] by (simp add: chat_value)
  have none: "fst (chat env s msg) = apology"
    if "\<forall>x \<in> set (chain_replies env s msg). x = None"
    using that first_reply_None [of "chain_replies env s msg"] by (simp add: chat_value)
  have nonempty: "fst (chat env s msg) \<noteq> []"
    if ne: "\<forall>x \<in> set (chain_replies env s msg). x \<noteq> Some []"
  proof (cases "first_reply (chain_replies env s msg)")
    case None
    then show ?thesis by (simp add: chat_value apology_nonempty)
  next
    case (Some r)
    then have "r \<noteq> []" using first_reply_in [OF Some] ne by auto
    then show ?thesis using Some by (simp add: chat_value)
  qed
  show ?thesis
    using first none nonempty chat_exn_eq [of env s msg] apology_nonempty by blast
qed

theorem chat_returns_first_reply_witness:
  "fst (chat hello_env fresh_router ''hi'') = ''Hello!''
   \<and> chat_exn hello_env fresh_router ''hi'' = Inr (chat hello_env fresh_router ''hi'')"
proof -
  have "chain_replies hello_env fresh_router ''hi'' = [None, None] @ Some ''Hello!'' # [None, None, None]
        \<and> (\<forall>x \<in> set [None, None :: string option]. x = None)"
    by (simp add: chain_replies_hello)
  then show ?thesis
    using chat_returns_first_reply [of hello_env fresh_router "''hi''"] by blast
qed

text \<open>
  Claim C1 as stated fails: the chain tests \<open>response is None\<close>, so an empty reply
  ends it.  With Groq replying with the empty string and Nvidia ready to reply
  \<open>Hello!\<close>, \<open>chat\<close> returns the empty string and Nvidia is never asked.
\<close>

theorem chat_empty_reply_counterexample:
  "fst (chat empty_then_hello_env fresh_router ''hi'') = []"
  by (simp add: empty_then_hello_env_def offline_env_def replies_empty_def chat_def
      chain_response_def configure_online_def check_ollama_def check_lmstudio_def
      chat_groq_def chat_lmstudio_def fresh_router_def Let_def)

text \<open>
  Claim C3.  Whatever the memory holds and whatever the user says, the Gemini step yields
  \<open>None\<close>: without a client it returns at once, and with one the call of
  \<open>get_summary_context\<close> raises before the model is asked, so the \<open>except\<close> branch
  returns \<open>None\<close>.
\<close>

theorem chat_gemini_fails: "chat_gemini env s user_message = None"
  by (simp add: chat_gemini_def get_summary_context_def)

theorem chat_gemini_fails_witness:
  "chat_gemini (offline_env\<lparr>GEMINI_API_KEY := ''key'', gemini_generate := replies_hello_text\<rparr>)
     (fresh_router\<lparr>gemini_client := True\<rparr>) ''hi'' = None"
  using chat_gemini_fails
    [of "offline_env\<lparr>GEMINI_API_KEY := ''key'', gemini_generate := replies_hello_text\<rparr>"
        "fresh_router\<lparr>gemini_client := True\<rparr>" "''hi''"]
  by simp

lemma chain_response_None_if_no_reply:
  assumes "\<forall>model msgs r. ollama_chat env model msgs \<noteq> Inr (Some r)"
      and "\<forall>msgs r. lmstudio_chat env msgs \<noteq> Inr (Some r)"
      and "\<forall>msgs r. groq_chat env msgs \<noteq> Inr (Some r)"
      and "\<forall>msgs r. nvidia_chat env msgs \<noteq> Inr (Some r)"
      and "\<forall>msgs r. openrouter_chat env msgs \<noteq> Inr (Some r)"
  shows "fst (chain_response env s msg) = None"
proof (cases "fst (chain_response env s msg)")
  case None
  then show ?thesis .
next
  case (Some r)
  from chain_response_origin [OF this] show ?thesis
    using assms step_results [of env _ msg r] by metis
qed

text \<open>
  Claim C4, as amended.  A backend fails when its step yields \<open>None\<close>: it is not
  configured or not reachable, it raised, or it replied \<open>None\<close>.  When every step
  yields \<open>None\<close> (as happens when no backend call ever returns a reply), \<open>chat\<close>
  returns the apology and the conversation memory is the one it started with.  The memory
  changes only when some step yields a reply; and when the first reply of the chain is
  \<open>r\<close>, the empty string included, the memory becomes what \<open>add_exchange\<close> makes of
  it with the user message and \<open>r\<close>: with both inserts succeeding, the two rows of the
  exchange are appended.
\<close>

theorem chat_all_backends_fail:
  "((\<forall>x \<in> set (chain_replies env s msg). x = None) \<longrightarrow>
      fst (chat env s msg) = apology \<and> memory (snd (chat env s msg)) = memory s)
   \<and> (memory (snd (chat env s msg)) \<noteq> memory s \<longrightarrow>
      (\<exists>r. Some r \<in> set (chain_replies env s msg)))
   \<and> (\<forall>pre r post.
        chain_replies env s msg = pre @ Some r # post \<and> (\<forall>x \<in> set pre. x = None)
        \<longrightarrow> memory (snd (chat env s msg))
            = add_exchange (db_write_user env) (db_write_assistant env) (memory s) msg r)
   \<and> (\<forall>pre r post.
        chain_replies env s msg = pre @ Some r # post \<and> (\<forall>x \<in> set pre. x = None)
        \<and> fst (db_write_user env) \<and> fst (db_write_assistant env)
        \<longrightarrow> rows (memory (snd (chat env s msg)))
            = rows (memory s)
              @ [\<lparr>role = ''user'', content = msg, timestamp = snd (db_write_user env),
                   metadata = None\<rparr>,
                 \<lparr>role = ''assistant'', content = r, timestamp = snd (db_write_assistant env),
                   metadata = None\<rparr>])
   \<and> ((\<forall>model msgs r. ollama_chat env model msgs \<noteq> Inr (Some r))
      \<and> (\<forall>msgs r. lmstudio_chat env msgs \<noteq> Inr (Some r))
      \<and> (\<forall>msgs r. groq_chat env msgs \<noteq> Inr (Some r))
      \<and> (\<forall>msgs r. nvidia_chat env msgs \<noteq> Inr (Some r))
      \<and> (\<forall>msgs r. openrouter_chat env msgs \<noteq> Inr (Some r))
      \<longrightarrow> (\<forall>x \<in> set (chain_replies env s msg). x = None))"
proof -
  have none: "fst (chat env s msg) = apology \<and> memory (snd (chat env s msg)) = memory s"
    if "\<forall>x \<in> set (chain_replies env s msg). x = None"
    using that first_reply_None [of "chain_replies env s msg"]
    by (simp add: chat_value chat_memory)
  have changed: "\<exists>r. Some r \<in> set (chain_replies env s msg)"
    if "memory (snd (chat env s msg)) \<noteq> memory s"
  proof (cases "first_reply (chain_replies env s msg)")
    case None
    then show ?thesis using that by (simp add: chat_memory)
  next
    case (Some r)
    then show ?thesis using first_reply_in by blast
  qed
  have appended: "memory (snd (chat env s msg))
      = add_exchange (db_write_user env) (db_write_assistant env) (memory s) msg r"
    if "chain_replies env s msg = pre @ Some r # post" and "\<forall>x \<in> set pre. x = None"
    for pre r post
    using that first_reply_first [of pre r post] by (simp add: chat_memory)
  have silent: "\<forall>x \<in> set (chain_replies env s msg). x = None"
    if "(\<forall>model msgs r. ollama_chat env model msgs \<noteq> Inr (Some r))
      \<and> (\<forall>msgs r. lmstudio_chat env msgs \<noteq> Inr (Some r))
      \<and> (\<forall>msgs r. groq_chat env msgs \<noteq> Inr (Some r))
      \<and> (\<forall>msgs r. nvidia_chat env msgs \<noteq> Inr (Some r))
      \<and> (\<forall>msgs r. openrouter_chat env msgs \<noteq> Inr (Some r))"
  proof -
    have "fst (chain_response env s msg) = None"
      using that by (intro chain_response_None_if_no_reply) blast+
    then show ?thesis
      using first_reply_None [of "chain_replies env s msg"]
      by (simp add: chain_response_first_reply)
  qed
  have stored: "rows (memory (snd (chat env s msg)))
      = rows (memory s)
        @ [\<lparr>role = ''user'', content = msg, timestamp = snd (db_write_user env),
             metadata = None\<rparr>,
           \<lparr>role = ''assistant'', content = r, timestamp = snd (db_write_assistant env),
             metadata = None\<rparr>]"
    if "chain_replies env s msg = pre @ Some r # post" and "\<forall>x \<in> set pre. x = None"
      and "fst (db_write_user env)" and "fst (db_write_assistant env)"
    for pre r post
    using that appended [of pre r post] by (simp add: add_exchange_def add_def)
  show ?thesis
    using none changed appended stored silent by blast
qed

theorem chat_all_backends_fail_witness:
  "fst (chat offline_env fresh_router ''hi'') = apology
   \<and> memory (snd (chat offline_env fresh_router ''hi'')) = memory fresh_router"
  using chat_all_backends_fail [of offline_env fresh_router "''hi''"]
  by (simp add: chain_replies_offline)

text \<open>
  Claim C4 as stated fails when a failure includes the empty result, as the specification
  has it.  Only Groq is configured and it replies with the empty string, so every backend
  of the chain fails in that sense; yet \<open>chat\<close> returns the empty string, not the
  apology, and the exchange with the empty reply is appended to the memory.
\<close>

theorem chat_only_empty_reply_counterexample:
  "chain_replies groq_empty_env fresh_router ''hi'' = [None, None, Some [], None, None, None]
   \<and> fst (chat groq_empty_env fresh_router ''hi'') = []
   \<and> apology \<noteq> []
   \<and> rows (memory (snd (chat groq_empty_env fresh_router ''hi'')))
       = [\<lparr>role = ''user'', content = ''hi'', timestamp = 100, metadata = None\<rparr>,
          \<lparr>role = ''assistant'', content = [], timestamp = 101, metadata = None\<rparr>]"
  by (simp add: chain_replies_groq_empty chat_value chat_memory apology_nonempty)
     (simp add: groq_empty_env_def offline_env_def fresh_router_def add_exchange_def add_def)

section \<open>Properties of listen\_with\_vad\<close>

lemma thresholds: "min_speech_threshold = 7" "silence_threshold = 21"
  by (simp_all add: min_speech_threshold_def silence_threshold_def MIN_SPEECH_DURATION_MS_def
      SILENCE_DURATION_MS_def SAMPLE_RATE_def samples_per_chunk_def)

lemma received_append: "received (xs @ ys) = received xs @ received ys"
  by (induction xs rule: received.induct) simp_all

lemma vad_loop_invariant:
  "vad_loop vad polls st = (st', rest) \<Longrightarrow>
   \<exists>consumed. polls = consumed @ rest
     \<and> audio_buffer st' = audio_buffer st @ received consumed
     \<and> speech_samples st' = speech_samples st + length (filter (is_speech vad) (received consumed))
     \<and> ((has_speech st = (min_speech_threshold \<le> speech_samples st)) \<longrightarrow>
         (has_speech st' = (min_speech_threshold \<le> speech_samples st')))"
proof (induction vad polls st arbitrary: st' rest rule: vad_loop.induct)
  case (1 vad st)
  then show ?case by simp
next
  case (2 vad polls st)
  then have "vad_loop vad polls st = (st', rest)" by simp
  from "2.IH" [OF this] obtain consumed where
    "polls = consumed @ rest"
    "audio_buffer st' = audio_buffer st @ received consumed"
    "speech_samples st' = speech_samples st + length (filter (is_speech vad) (received consumed))"
    "(has_speech st = (min_speech_threshold \<le> speech_samples st)) \<longrightarrow>
         (has_speech st' = (min_speech_threshold \<le> speech_samples st'))"
    by blast
  then show ?case
    by (intro exI [of _ "None # consumed"]) simp
next
  case (3 vad chunk polls st)
  let ?st1 = "st\<lparr>audio_buffer := audio_buffer st @ [chunk]\<rparr>"
  have sp: "is_speech vad chunk = (vad chunk > VAD_THRESHOLD)"
    by (simp add: is_speech_def)
  show ?case
  proof (cases "vad chunk > VAD_THRESHOLD")
    case True
    let ?st2 = "?st1\<lparr>speech_samples := speech_samples ?st1 + 1, silence_samples := 0\<rparr>"
    show ?thesis
    proof (cases "speech_samples ?st2 \<ge> min_speech_threshold")
      case t: True
      then have "vad_loop vad polls (?st2\<lparr>has_speech := True\<rparr>) = (st', rest)"
        using "3.prems" True by (simp add: Let_def)
      from "3.IH"(1) [OF refl refl True refl t this] obtain consumed where c:
        "polls = consumed @ rest"
        "audio_buffer st' = audio_buffer (?st2\<lparr>has_speech := True\<rparr>) @ received consumed"
        "speech_samples st' = speech_samples (?st2\<lparr>has_speech := True\<rparr>)
            + length (filter (is_speech vad) (received consumed))"
        "(has_speech (?st2\<lparr>has_speech := True\<rparr>)
            = (min_speech_threshold \<le> speech_samples (?st2\<lparr>has_speech := True\<rparr>))) \<longrightarrow>
         (has_speech st' = (min_speech_threshold \<le> speech_samples st'))"
        by blast
      show ?thesis
        using c t True by (intro exI [of _ "Some chunk # consumed"]) (simp add: sp)
    next
      case f: False
      then have "vad_loop vad polls ?st2 = (st', rest)"
        using "3.prems" True by (simp add: Let_def)
      from "3.IH"(2) [OF refl refl True refl f this] obtain consumed where c:
        "polls = consumed @ rest"
        "audio_buffer st' = audio_buffer ?st2 @ received consumed"
        "speech_samples st' = speech_samples ?st2
            + length (filter (is_speech vad) (received consumed))"
        "(has_speech ?st2 = (min_speech_threshold \<le> speech_samples ?st2)) \<longrightarrow>
         (has_speech st' = (min_speech_threshold \<le> speech_samples st'))"
        by blast
      show ?thesis
        using c f True by (intro exI [of _ "Some chunk # consumed"]) (auto simp: sp)
    qed
  next
    case False
    show ?thesis
    proof (cases "has_speech ?st1")
      case h: True
      let ?st2 = "?st1\<lparr>silence_samples := silence_samples ?st1 + 1\<rparr>"
      show ?thesis
      proof (cases "silence_samples ?st2 \<ge> silence_threshold")
        case t: True
        then have "st' = ?st2" "rest = polls"
          using "3.prems" False h by (simp_all add: Let_def)
        then show ?thesis
          using False by (intro exI [of _ "[Some chunk]"]) (simp add: sp)
      next
        case f: False
        then have "vad_loop vad polls ?st2 = (st', rest)"
          using "3.prems" False h by (simp add: Let_def)
        from "3.IH"(3) [OF refl refl False h refl f this] obtain consumed where c:
          "polls = consumed @ rest"
          "audio_buffer st' = audio_buffer ?st2 @ received consumed"
          "speech_samples st' = speech_samples ?st2
              + length (filter (is_speech vad) (received consumed))"
          "(has_speech ?st2 = (min_speech_threshold \<le> speech_samples ?st2)) \<longrightarrow>
           (has_speech st' = (min_speech_threshold \<le> speech_samples st'))"
          by blast
        show ?thesis
          using c False by (intro exI [of _ "Some chunk # consumed"]) (simp add: sp)
      qed
    next
      case h: False
      then have "vad_loop vad polls ?st1 = (st', rest)"
        using "3.prems" False by (simp add: Let_def)
      from "3.IH"(4) [OF refl refl False h this] obtain consumed where c:
        "polls = consumed @ rest"
        "audio_buffer st' = audio_buffer ?st1 @ received consumed"
        "speech_samples st' = speech_samples ?st1
            + length (filter (is_speech vad) (received consumed))"
        "(has_speech ?st1 = (min_speech_threshold \<le> speech_samples ?st1)) \<longrightarrow>
         (has_speech st' = (min_speech_threshold \<le> speech_samples st'))"
        by blast
      show ?thesis
        using c False by (intro exI [of _ "Some chunk # consumed"]) (simp add: sp)
    qed
  qed
qed


lemma example_vad_simps:
  "example_vad speech_chunk = 9 / 10" "example_vad silent_chunk = 1 / 10"
  by (simp_all add: example_vad_def speech_chunk_def silent_chunk_def replicate_eq_replicate)

lemma is_speech_example:
  "is_speech example_vad speech_chunk" "\<not> is_speech example_vad silent_chunk"
  by (simp_all add: is_speech_def example_vad_simps VAD_THRESHOLD_def)

lemma vad_loop_steady:
  "vad_loop example_vad steady_polls initial_vad_state =
     (\<lparr>audio_buffer = [silent_chunk, speech_chunk, speech_chunk, speech_chunk, speech_chunk,
                         speech_chunk, speech_chunk, speech_chunk],
       silence_samples = 0, speech_samples = 7, has_speech = True\<rparr>, [])"
  by (simp add: steady_polls_def initial_vad_state_def example_vad_simps VAD_THRESHOLD_def
      thresholds Let_def)

lemma vad_loop_sporadic:
  "vad_loop example_vad sporadic_polls initial_vad_state =
     (\<lparr>audio_buffer = [speech_chunk, silent_chunk, speech_chunk, silent_chunk,
                         speech_chunk, silent_chunk, speech_chunk, silent_chunk,
                         speech_chunk, silent_chunk, speech_chunk, silent_chunk,
                         speech_chunk, silent_chunk],
       silence_samples = 1, speech_samples = 7, has_speech = True\<rparr>, [])"
  by (simp add: sporadic_polls_def initial_vad_state_def example_vad_simps VAD_THRESHOLD_def
      thresholds Let_def)

lemma vad_loop_leftover:
  "vad_loop vad polls st = (st', rest) \<Longrightarrow>
   rest = [] \<or> (has_speech st' \<and> silence_threshold \<le> silence_samples st')"
  by (induction vad polls st arbitrary: st' rest rule: vad_loop.induct)
     (auto simp: Let_def split: if_splits)

text \<open>
  Claim C2, as amended.  \<open>speech_samples\<close> is never reset: when the loop ends it is the
  number of speech-classified chunks among all the chunks the loop has consumed, and
  \<open>has_speech\<close> is set, and an utterance returned, exactly when that number has reached
  the minimum-speech threshold.
\<close>

theorem has_speech_counts_all_speech_chunks:
  "\<exists>consumed. polls = consumed @ snd (vad_loop vad polls initial_vad_state)
     \<and> speech_samples (fst (vad_loop vad polls initial_vad_state))
         = length (filter (is_speech vad) (received consumed))
     \<and> has_speech (fst (vad_loop vad polls initial_vad_state))
         = (min_speech_threshold \<le> length (filter (is_speech vad) (received consumed)))
     \<and> (listen_with_vad vad polls \<noteq> None)
         = has_speech (fst (vad_loop vad polls initial_vad_state))"
proof -
  obtain st' rest where r: "vad_loop vad polls initial_vad_state = (st', rest)"
    by (cases "vad_loop vad polls initial_vad_state")
  from vad_loop_invariant [OF r] obtain consumed where c:
    "polls = consumed @ rest"
    "speech_samples st' = speech_samples initial_vad_state
        + length (filter (is_speech vad) (received consumed))"
    "(has_speech initial_vad_state
        = (min_speech_threshold \<le> speech_samples initial_vad_state)) \<longrightarrow>
     (has_speech st' = (min_speech_threshold \<le> speech_samples st'))"
    by blast
  have "has_speech st' = (min_speech_threshold \<le> speech_samples st')"
    using c(3) by (simp add: initial_vad_state_def thresholds)
  then show ?thesis
    using r c(1,2)
    by (intro exI [of _ consumed]) (simp add: initial_vad_state_def listen_with_vad_def)
qed

theorem has_speech_counts_all_speech_chunks_witness:
  "(listen_with_vad example_vad steady_polls \<noteq> None)
     = (min_speech_threshold \<le> length (filter (is_speech example_vad) (received steady_polls)))"
  using has_speech_counts_all_speech_chunks [of steady_polls example_vad]
  by (simp add: vad_loop_steady)

text \<open>
  Claim C2 as stated fails: seven speech chunks, each followed by a silence chunk, never
  form a run longer than one chunk, yet they confirm speech.
\<close>

theorem sporadic_speech_counterexample:
  "has_speech (fst (vad_loop example_vad sporadic_polls initial_vad_state))
   \<and> listen_with_vad example_vad sporadic_polls \<noteq> None
   \<and> longest_speech_run example_vad (received sporadic_polls) 0 = 1
   \<and> 1 < min_speech_threshold"
  by (simp add: vad_loop_sporadic listen_with_vad_def thresholds)
     (simp add: sporadic_polls_def is_speech_example)

text \<open>
  Claim C10.  When \<open>listen_with_vad\<close> returns an utterance, it is the concatenation, in
  order, of every chunk the loop received, from the first poll up to the point where the
  loop ended, whatever the classification of each chunk; polls are left over only when the
  loop ended on the silence threshold.
\<close>

theorem listen_with_vad_keeps_every_chunk:
  assumes "listen_with_vad vad polls = Some utterance"
  shows "(\<exists>consumed. polls = consumed @ snd (vad_loop vad polls initial_vad_state)
           \<and> utterance = concat (received consumed))
       \<and> (snd (vad_loop vad polls initial_vad_state) = []
           \<or> silence_threshold \<le> silence_samples (fst (vad_loop vad polls initial_vad_state)))"
proof -
  obtain st' rest where r: "vad_loop vad polls initial_vad_state = (st', rest)"
    by (cases "vad_loop vad polls initial_vad_state")
  from vad_loop_invariant [OF r] obtain consumed where c:
    "polls = consumed @ rest"
    "audio_buffer st' = audio_buffer initial_vad_state @ received consumed"
    by blast
  have "utterance = concat (audio_buffer st')"
    using assms r by (simp add: listen_with_vad_def split: if_splits)
  then have "\<exists>consumed. polls = consumed @ snd (vad_loop vad polls initial_vad_state)
           \<and> utterance = concat (received consumed)"
    using r c by (intro exI [of _ consumed]) (simp add: initial_vad_state_def)
  moreover have "rest = [] \<or> silence_threshold \<le> silence_samples st'"
    using vad_loop_leftover [OF r] by blast
  ultimately show ?thesis using r by simp
qed

theorem listen_with_vad_keeps_every_chunk_witness:
  "listen_with_vad example_vad steady_polls = Some (concat (received steady_polls))"
  using listen_with_vad_keeps_every_chunk
    [of example_vad steady_polls "concat (received steady_polls)"]
  by (simp add: listen_with_vad_def vad_loop_steady) (simp add: steady_polls_def)


section \<open>Properties of SkillRouter\<close>

lemma keyword_match_None:
  "keyword_match items utt = Inr None \<Longrightarrow> \<forall>(key, sk) \<in> set items. \<not> keywords_match sk utt"
  by (induction items utt rule: keyword_match.induct)
     (auto simp: matches_def split: sum.splits bool.splits if_splits)

lemma keyword_match_Some:
  "keyword_match items utt = Inr (Some sk) \<Longrightarrow>
   sk \<in> snd ` set items \<and> inherits_base sk \<and> keywords_match sk utt"
  by (induction items utt rule: keyword_match.induct)
     (auto simp: matches_def split: sum.splits bool.splits if_splits)

lemma route_time:
  "route says_general example_skills ''what time is it'' [(''confidence'', 9 / 10)]
     = (Inr (Some (Str ''14:32'')), [HandleCall ''time'' (Inr (Some (Str ''14:32'')))])"
  by code_simp

lemma route_rain:
  "route says_general example_skills ''will it rain'' [(''confidence'', 9 / 10)]
     = (Inr None, [HandleCall ''weather'' (Inl (Error ''boom''))])"
  by code_simp

lemma route_hello:
  "route says_general example_skills ''hello'' [(''confidence'', 9 / 10)]
     = (Inr None, [ClassifyCall ''hello''])"
  by code_simp

lemma route_song:
  "route says_general example_skills ''play a song'' [(''confidence'', 9 / 10)]
     = (Inr (Some (Structured \<lparr>response_text = ''Which song?'', continue_listening = False,
                             timeout = 10\<rparr>)),
        [HandleCall ''music''
           (Inr (Some (Structured \<lparr>response_text = ''Which song?'', continue_listening = False,
                             timeout = 10\<rparr>)))])"
  by code_simp

text \<open>
  Claim C6.  Whatever the text and the context, \<open>route\<close> calls the handler of at most one
  skill; and when the keywords of some registered skill occur in the text (both in lower
  case), the classifier is not consulted.
\<close>

theorem route_one_handler:
  "length (filter is_handle_call (snd (route model items utt ctx))) \<le> 1
   \<and> ((\<exists>(key, sk) \<in> set items. keywords_match sk utt) \<longrightarrow>
        filter is_classify_call (snd (route model items utt ctx)) = [])"
proof -
  have one: "length (filter is_handle_call (snd (route model items utt ctx))) \<le> 1"
    by (simp add: route_def split: sum.splits option.splits)
  have "filter is_classify_call (snd (route model items utt ctx)) = []"
    if ex: "\<exists>(key, sk) \<in> set items. keywords_match sk utt"
  proof (cases "keyword_match items utt")
    case (Inl e)
    then show ?thesis by (simp add: route_def)
  next
    case (Inr found)
    then obtain sk where "found = Some sk"
      using ex keyword_match_None [of items utt] by (cases found) auto
    then show ?thesis using Inr by (simp add: route_def split: sum.splits)
  qed
  then show ?thesis using one by blast
qed

theorem route_one_handler_witness:
  "length (filter is_handle_call
     (snd (route says_general example_skills ''what time is it'' [(''confidence'', 9 / 10)]))) = 1
   \<and> filter is_classify_call
     (snd (route says_general example_skills ''what time is it'' [(''confidence'', 9 / 10)])) = []"
  using route_one_handler
    [of says_general example_skills "''what time is it''" "[(''confidence'', 9 / 10)]"]
  by (simp add: route_time)

text \<open>
  Claim C9.  When the handler that \<open>route\<close> calls raises an exception, \<open>route\<close> returns
  \<open>None\<close> (no match) and the exception does not leave it; the caller in main.py then
  asks the chat provider.
\<close>

theorem route_catches_handler_exception:
  "(HandleCall n (Inl e) \<in> set (snd (route model items utt ctx)) \<longrightarrow>
      fst (route model items utt ctx) = Inr None)
   \<and> (HandleCall n (Inl e)
        \<in> set (snd (route (classifier env) (skills va) utt [(''confidence'', confidence)])) \<longrightarrow>
      ChatCall utt \<in> set (snd (obtain_response env va utt confidence)))"
proof -
  have caught: "fst (route model' items' utt' ctx') = Inr None"
    if "HandleCall n (Inl e) \<in> set (snd (route model' items' utt' ctx'))"
    for model' items' utt' ctx'
    using that by (auto simp: route_def split: sum.splits option.splits if_splits)
  have "ChatCall utt \<in> set (snd (obtain_response env va utt confidence))"
    if "HandleCall n (Inl e)
        \<in> set (snd (route (classifier env) (skills va) utt [(''confidence'', confidence)]))"
    using caught [OF that] by (simp add: obtain_response_def split_beta Let_def)
  then show ?thesis using caught by blast
qed

theorem route_catches_handler_exception_witness:
  "fst (route says_general example_skills ''will it rain'' [(''confidence'', 9 / 10)]) = Inr None
   \<and> ChatCall ''will it rain''
       \<in> set (snd (obtain_response (example_world hears_play_a_song) example_assistant
                      ''will it rain'' (9 / 10)))"
  using route_catches_handler_exception
    [of "''weather''" "Error ''boom''" says_general example_skills "''will it rain''"
        "[(''confidence'', 9 / 10)]" "example_world hears_play_a_song" example_assistant "9 / 10"]
  by (simp add: route_rain example_world_def example_assistant_def)

section \<open>Properties of VoiceAssistant\<close>

lemma speak_and_continue_state:
  "state (fst (speak_and_continue va resp)) = (if should_continue resp then LISTENING else IDLE)"
  by (simp add: speak_and_continue_def transition_def Let_def split_beta)

lemma speak_and_continue_last_transition:
  "Transition SPEAKING (if should_continue resp then LISTENING else IDLE)
     \<in> set (snd (speak_and_continue va resp))"
  by (simp add: speak_and_continue_def transition_def Let_def split_beta)

lemma should_continue_listening_iff:
  "should_continue_listening final =
     (endswith final ''?'' \<or> (\<exists>p \<in> set FOLLOWUP_PHRASES. str_in p (lower final)))"
  by (simp add: should_continue_listening_def list_ex_iff)

lemma transcribe_mumble:
  "transcribe (example_world hears_mumble) speech_chunk = (''play a song'', 3 / 10)"
  by (simp add: example_world_def hears_mumble_def)

lemma transcribe_song:
  "transcribe (example_world hears_play_a_song) speech_chunk = (''play a song'', 9 / 10)"
  by (simp add: example_world_def hears_play_a_song_def)

lemma obtain_song:
  "obtain_response (example_world hears_play_a_song) example_assistant ''play a song'' (9 / 10)
     = (Inr (Structured \<lparr>response_text = ''Which song?'', continue_listening = False,
                             timeout = 10\<rparr>, example_assistant),
        [RouteCall ''play a song'',
         HandleCall ''music''
           (Inr (Some (Structured \<lparr>response_text = ''Which song?'', continue_listening = False,
                             timeout = 10\<rparr>)))])"
  by (simp add: obtain_response_def example_world_def example_assistant_def route_song)

lemma which_song_question: "endswith ''Which song?'' ''?''"
  by code_simp

text \<open>
  Claim C5.  When the transcribed text is empty or its confidence is below 0.4,
  \<open>_process_speech\<close> makes the one transition to IDLE (from PROCESSING, the state in
  which it is called) and returns: the skill router, its handlers and classifier and the
  chat provider are not called, and nothing else of the assistant changes.
\<close>

theorem low_confidence_returns_to_idle:
  assumes "transcribe env audio_bytes = (utt, confidence)"
      and "utt = [] \<or> confidence < 4 / 10"
  shows "process_speech env va audio_bytes =
           (Inr (va\<lparr>state := IDLE\<rparr>),
            Transition (state va) IDLE
            # (if ui_callback va then [UiCallback ''IDLE'' None] else []))
       \<and> filter calls_router_or_provider (snd (process_speech env va audio_bytes)) = []"
  using assms by (auto simp: process_speech_def transition_def)

theorem low_confidence_returns_to_idle_witness:
  "process_speech (example_world hears_mumble) example_assistant speech_chunk =
     (Inr (example_assistant\<lparr>state := IDLE\<rparr>), [Transition PROCESSING IDLE])"
  using low_confidence_returns_to_idle
    [of "example_world hears_mumble" speech_chunk "''play a song''" "3 / 10" example_assistant]
  by (simp add: transcribe_mumble) (simp add: example_assistant_def)

text \<open>
  Claim C8.  Take a turn whose transcript is accepted and whose response, from a handler
  or from the chat provider, does not request continuation.  The turn ends in LISTENING
  exactly when the text spoken ends with a question mark or its lower-case form contains
  one of the follow-up phrases, and in IDLE otherwise; the last transition leaves
  SPEAKING.  The response \<open>{text: "Which song?", continue_listening: false}\<close> is the
  witness: it leads to LISTENING.
\<close>

theorem continuation_heuristic:
  assumes "transcribe env audio_bytes = (utt, confidence)"
      and "utt \<noteq> []" and "\<not> confidence < 4 / 10"
      and "obtain_response env va utt confidence = (Inr (resp, va1), events)"
      and "\<not> requests_continuation resp"
  shows "\<exists>va'. fst (process_speech env va audio_bytes) = Inr va'
           \<and> (state va' = LISTENING) =
               (endswith (final_text resp) ''?''
                \<or> (\<exists>p \<in> set FOLLOWUP_PHRASES. str_in p (lower (final_text resp))))
           \<and> (state va' = LISTENING \<or> state va' = IDLE)
           \<and> Transition SPEAKING (state va') \<in> set (snd (process_speech env va audio_bytes))"
proof -
  let ?va' = "fst (speak_and_continue va1 resp)"
  have sc: "should_continue resp =
      (endswith (final_text resp) ''?''
       \<or> (\<exists>p \<in> set FOLLOWUP_PHRASES. str_in p (lower (final_text resp))))"
    using assms(5) by (simp add: should_continue_def should_continue_listening_iff)
  have ps: "process_speech env va audio_bytes =
      (Inr ?va',
       (if ui_callback va
        then [UiCallback ''PROCESSING'' (Some (''Processing: '' @ take 30 utt @ ''...''))]
        else []) @ events @ snd (speak_and_continue va1 resp))"
    using assms(1-4) by (simp add: process_speech_def split_beta)
  have st: "state ?va' = (if should_continue resp then LISTENING else IDLE)"
    by (rule speak_and_continue_state)
  have tr: "Transition SPEAKING (state ?va') \<in> set (snd (speak_and_continue va1 resp))"
    using speak_and_continue_last_transition [of resp va1] st by simp
  show ?thesis
    using ps st tr sc by (intro exI [of _ ?va']) auto
qed

theorem continuation_heuristic_witness:
  "\<exists>va'. fst (process_speech (example_world hears_play_a_song) example_assistant speech_chunk)
            = Inr va'
         \<and> state va' = LISTENING"
  using continuation_heuristic
    [of "example_world hears_play_a_song" speech_chunk "''play a song''" "9 / 10"
        example_assistant
        "Structured \<lparr>response_text = ''Which song?'', continue_listening = False, timeout = 10\<rparr>"
        example_assistant]
  by (simp add: transcribe_song obtain_song requests_continuation_def final_text_def
      which_song_question) blast

end
